theory Spec2Isabelle
  imports Main "HOL-Library.Word"
begin

section \<open>Basic types\<close>

text \<open>
  A Go \<^verbatim>\<open>error\<close> value is identified with its message. A Go \<^verbatim>\<open>map[string]string\<close> that is
  only ranged over is an association list with one pair per key, in the (unspecified) order in
  which \<^verbatim>\<open>range\<close> visits it; a map that is only looked up is a partial function.
\<close>

type_synonym error = string
type_synonym int32 = "32 word"
type_synonym int64 = "64 word"

record Plugin =
  JobName :: string
  Namespace :: string
  Image :: string
  Workspace :: string
  WorkspacePVC :: string
  ServiceAccount :: string
  OriginalCommands :: "string list option"
  LabelSelector :: "string \<rightharpoonup> string"
  Env :: "(string \<times> string) list"

definition pluginEnvPrefix :: string where
  "pluginEnvPrefix = ''PLUGIN_''"

definition droneEnvPrefix :: string where
  "droneEnvPrefix = ''DRONE_''"

definition gracePeriodSeconds :: int64 where
  "gracePeriodSeconds = 2"

definition label :: string where
  "label = ''label-name''"

text \<open>\<^verbatim>\<open>strings.HasPrefix(s, prefix)\<close>: \<^verbatim>\<open>len(s) >= len(prefix) && s[0:len(prefix)] == prefix\<close>.\<close>

definition HasPrefix :: "string \<Rightarrow> string \<Rightarrow> bool" where
  "HasPrefix s pre = (length pre \<le> length s \<and> take (length pre) s = pre)"

section \<open>The container environment\<close>

record EnvVar =
  evName :: string
  evValue :: string

text \<open>The body of the \<^verbatim>\<open>range p.Env\<close> loop of \<^verbatim>\<open>originalEnvVars\<close>, one pair per iteration.\<close>

fun originalEnvVars_loop :: "(string \<times> string) list \<Rightarrow> EnvVar list \<Rightarrow> EnvVar list" where
  "originalEnvVars_loop [] originalEnv = originalEnv"
| "originalEnvVars_loop ((key, v) # rest) originalEnv =
     originalEnvVars_loop rest
       (if HasPrefix key pluginEnvPrefix \<or> HasPrefix key droneEnvPrefix
        then originalEnv @ [\<lparr>evName = key, evValue = v\<rparr>]
        else originalEnv)"

definition originalEnvVars :: "Plugin \<Rightarrow> EnvVar list" where
  "originalEnvVars p = originalEnvVars_loop (Env p) []"

section \<open>The workload description\<close>

text \<open>
  The Kubernetes API objects, with the fields this program sets. A field the program leaves
  out of a struct literal has Go's zero value; a slice or pointer that may be \<^verbatim>\<open>nil\<close> is an
  \<open>option\<close>. The enumerations are the API's string constants.
\<close>

datatype PullPolicy = PullAlways | PullNever | PullIfNotPresent

datatype RestartPolicy = RestartPolicyAlways | RestartPolicyOnFailure | RestartPolicyNever

datatype PersistentVolumeAccessMode = ReadWriteOnce | ReadOnlyMany | ReadWriteMany

datatype ResourceName = ResourceCPU | ResourceMemory | ResourceStorage

type_synonym Quantity = string

record TypeMeta =
  Kind :: string
  APIVersion :: string

record ObjectMeta =
  Name :: string
  Labels :: "string \<rightharpoonup> string"

record SecurityContext =
  Privileged :: "bool option"

record VolumeMount =
  vmName :: string
  MountPath :: string

record Container =
  cName :: string
  cImage :: string
  WorkingDir :: string
  cSecurityContext :: "SecurityContext option"
  ImagePullPolicy :: PullPolicy
  cEnv :: "EnvVar list"
  VolumeMounts :: "VolumeMount list"
  Command :: "string list option"
  Args :: "string list option"

record Volume =
  volName :: string
  PersistentVolumeClaim_ClaimName :: "string option"

record PodSpec =
  ServiceAccountName :: string
  Containers :: "Container list"
  podRestartPolicy :: RestartPolicy
  Volumes :: "Volume list"
  ImagePullSecrets :: "string list"

record PodTemplateSpec =
  tmplObjectMeta :: ObjectMeta
  tmplSpec :: PodSpec

record Job =
  jobTypeMeta :: TypeMeta
  jobObjectMeta :: ObjectMeta
  Template :: PodTemplateSpec

record PersistentVolumeClaim =
  pvcObjectMeta :: ObjectMeta
  AccessModes :: "PersistentVolumeAccessMode list"
  Requests :: "ResourceName \<rightharpoonup> Quantity"

text \<open>
  The outcome of a call: it returns a value, returns a non-nil \<^verbatim>\<open>error\<close>, panics (which ends
  the whole process), or never returns because it waits on a channel or on the WaitGroup for
  something that does not come.
\<close>

datatype 'a outcome = Ok 'a | Err error | Panic | Blocked

text \<open>
  \<^verbatim>\<open>originalCommands\<close> of main.go; its argument is the result of
  \<^verbatim>\<open>os.LookupEnv("PLUGIN_ORIGINAL_COMMANDS")\<close>, \<open>None\<close> when the variable is not set.
\<close>

definition originalCommands :: "string option \<Rightarrow> string list option" where
  "originalCommands lookup =
     (case lookup of
        None \<Rightarrow> None
      | Some oc \<Rightarrow> if oc = [] then None else Some [oc])"

definition assembleJob :: "Plugin \<Rightarrow> Job outcome" where
  "assembleJob p =
     (let falseVal = False;
          batchJob = \<lparr>
            jobTypeMeta = \<lparr>Kind = ''Job'', APIVersion = ''batch/v1''\<rparr>,
            jobObjectMeta = \<lparr>Name = JobName p, Labels = LabelSelector p\<rparr>,
            Template = \<lparr>
              tmplObjectMeta = \<lparr>Name = JobName p, Labels = LabelSelector p\<rparr>,
              tmplSpec = \<lparr>
                ServiceAccountName = ServiceAccount p,
                Containers = [\<lparr>
                  cName = JobName p,
                  cImage = Image p,
                  WorkingDir = Workspace p,
                  cSecurityContext = Some \<lparr>Privileged = Some falseVal\<rparr>,
                  ImagePullPolicy = PullIfNotPresent,
                  cEnv = originalEnvVars p,
                  VolumeMounts = [\<lparr>vmName = JobName p, MountPath = Workspace p\<rparr>],
                  Command = None,
                  Args = None\<rparr>],
                podRestartPolicy = RestartPolicyNever,
                Volumes = [\<lparr>volName = JobName p,
                            PersistentVolumeClaim_ClaimName = Some (WorkspacePVC p)\<rparr>],
                ImagePullSecrets = []\<rparr>\<rparr>\<rparr>
      in Ok batchJob)"

text \<open>
  \<^verbatim>\<open>DecorateJob\<close> writes through \<^verbatim>\<open>&job.Spec.Template.Spec.Containers[0]\<close>, which panics when the
  job has no container.
\<close>

definition DecorateJob :: "Plugin \<Rightarrow> Job \<Rightarrow> Job outcome" where
  "DecorateJob p job =
     (if OriginalCommands p \<noteq> None \<and> length (the (OriginalCommands p)) > 0
      then (case Containers (tmplSpec (Template job)) of
              [] \<Rightarrow> Panic
            | container # others \<Rightarrow>
                Ok (job\<lparr>Template := (Template job)\<lparr>tmplSpec := (tmplSpec (Template job))\<lparr>Containers :=
                      container\<lparr>Command := Some [''sh'', ''-c''], Args := OriginalCommands p\<rparr> # others\<rparr>\<rparr>\<rparr>))
      else Ok job)"

section \<open>The cluster and the process state\<close>

text \<open>
  The cluster is the environment: a record of its answers to the API calls of the client set.
  The pod subscription may be opened more than once in a run, so its answer depends on the
  number of pod subscriptions opened before.
\<close>

record ListOptions =
  Watch :: bool
  optLabelSelector :: string

record Cluster =
  BuildConfigFromFlags :: "error option"
  NewForConfig :: "error option"
  PVC_Get :: "string \<Rightarrow> string \<Rightarrow> error + PersistentVolumeClaim"
  PVC_Create :: "string \<Rightarrow> PersistentVolumeClaim \<Rightarrow> error + PersistentVolumeClaim"
  PVC_Delete :: "string \<Rightarrow> string \<Rightarrow> error option"
  Jobs_Watch :: "string \<Rightarrow> ListOptions \<Rightarrow> error option"
  Jobs_Create :: "string \<Rightarrow> Job \<Rightarrow> error + Job"
  Jobs_Delete :: "string \<Rightarrow> string \<Rightarrow> error option"
  Pods_Watch :: "nat \<Rightarrow> error option"

text \<open>The API calls the process issues, recorded in the order of issue.\<close>

datatype Call =
    Call_PVC_Get string string
  | Call_PVC_Create string PersistentVolumeClaim
  | Call_PVC_Delete string string int64
  | Call_Jobs_Watch string ListOptions
  | Call_Jobs_Create string Job
  | Call_Jobs_Delete string string int64
  | Call_Pods_Watch string ListOptions
  | Call_Pods_GetLogs string string bool

text \<open>
  A subscription (\<^verbatim>\<open>watch.Interface\<close>): the number of \<^verbatim>\<open>Stop()\<close> calls it has received and
  whether its result channel has been closed. The library closes the channel some time
  after a \<^verbatim>\<open>Stop()\<close>, or when the stream ends on the cluster's side; a \<^verbatim>\<open>range\<close> over the
  channel ends when the channel is closed, not at the \<^verbatim>\<open>Stop()\<close>, and until then it still
  receives the events that were already on their way. \<open>closed\<close> says that the subscription
  was stopped or that its channel is closed.
\<close>

record Watcher =
  stops :: nat
  ended :: bool

definition newWatcher :: Watcher where
  "newWatcher = \<lparr>stops = 0, ended = False\<rparr>"

definition Stop :: "Watcher \<Rightarrow> Watcher" where
  "Stop wt = wt\<lparr>stops := stops wt + 1\<rparr>"

definition closed :: "Watcher \<Rightarrow> bool" where
  "closed wt = (0 < stops wt \<or> ended wt)"

text \<open>
  A \<^verbatim>\<open>WatchLogs\<close> goroutine: spawned and not yet past \<^verbatim>\<open>req.Stream()\<close>, blocked in
  \<^verbatim>\<open>io.Copy\<close>, or returned.
\<close>

datatype LogPhase = Spawned | Streaming | Finished

record LogTask =
  ltPodName :: string
  ltPhase :: LogPhase

datatype Level = WarnLevel | InfoLevel | ErrorLevel

text \<open>
  The state shared by the goroutines of the process: the global \<^verbatim>\<open>watcherStatusMap\<close> (a lookup
  of a missing key gives \<^verbatim>\<open>false\<close>), the counter of the WaitGroup \<^verbatim>\<open>p.Wg\<close>, the job
  subscription, the pod subscriptions opened so far, for each \<^verbatim>\<open>PodEvents\<close> goroutine the index
  of the pod subscription it ranges over, the \<^verbatim>\<open>WatchLogs\<close> goroutines, the API calls issued and
  the lines logged. \<^verbatim>\<open>init()\<close> sets the level of the logger to Info and nothing changes it, so
  a \<^verbatim>\<open>Debugf\<close> call writes nothing: those calls are left out.
\<close>

record World =
  watcherStatusMap :: "string \<Rightarrow> bool"
  Wg :: int
  jobWatcher :: Watcher
  podWatchers :: "Watcher list"
  podTasks :: "nat list"
  logTasks :: "LogTask list"
  calls :: "Call list"
  logged :: "(Level \<times> string) list"

definition JobWatcherStatusKey :: string where
  "JobWatcherStatusKey = ''job''"

definition PodWatcherStatusKey :: string where
  "PodWatcherStatusKey = ''pod''"

definition LogWatcherStatusKey :: string where
  "LogWatcherStatusKey = ''log''"

text \<open>The state of a process that has just started.\<close>

definition initWorld :: World where
  "initWorld = \<lparr>
     watcherStatusMap = (\<lambda>k. False),
     Wg = 0,
     jobWatcher = newWatcher,
     podWatchers = [],
     podTasks = [],
     logTasks = [],
     calls = [],
     logged = []\<rparr>"

definition watchingStatusOn :: "string \<Rightarrow> World \<Rightarrow> World" where
  "watchingStatusOn watcherStatusKey w =
     w\<lparr>watcherStatusMap := (watcherStatusMap w)(watcherStatusKey := True)\<rparr>"

definition watchingStatusOff :: "string \<Rightarrow> World \<Rightarrow> World" where
  "watchingStatusOff watcherStatusKey w =
     w\<lparr>watcherStatusMap := (watcherStatusMap w)(watcherStatusKey := False)\<rparr>"

definition watchingStatus :: "string \<Rightarrow> World \<Rightarrow> bool" where
  "watchingStatus watcherStatusKey w = watcherStatusMap w watcherStatusKey"

definition logf :: "Level \<Rightarrow> string \<Rightarrow> World \<Rightarrow> World" where
  "logf lvl msg w = w\<lparr>logged := logged w @ [(lvl, msg)]\<rparr>"

definition issue :: "Call \<Rightarrow> World \<Rightarrow> World" where
  "issue c w = w\<lparr>calls := calls w @ [c]\<rparr>"

text \<open>\<^verbatim>\<open>watcher.Stop()\<close> on the job subscription and on the pod subscription with index \<open>i\<close>.\<close>

definition stopJobWatcher :: "World \<Rightarrow> World" where
  "stopJobWatcher w = w\<lparr>jobWatcher := Stop (jobWatcher w)\<rparr>"

definition stopPodWatcher :: "nat \<Rightarrow> World \<Rightarrow> World" where
  "stopPodWatcher i w =
     (if i < length (podWatchers w)
      then w\<lparr>podWatchers := (podWatchers w)[i := Stop (podWatchers w ! i)]\<rparr>
      else w)"

text \<open>
  \<^verbatim>\<open>Wg.Add(1)\<close>, and \<^verbatim>\<open>Wg.Done()\<close>, which panics when the counter would become negative.
\<close>

definition WgAdd1 :: "World \<Rightarrow> World" where
  "WgAdd1 w = w\<lparr>Wg := Wg w + 1\<rparr>"

definition WgDone :: "World \<Rightarrow> unit outcome \<times> World" where
  "WgDone w = (if Wg w - 1 < 0 then (Panic, w) else (Ok (), w\<lparr>Wg := Wg w - 1\<rparr>))"

text \<open>
  \<^verbatim>\<open>strings.Join([]string{label, p.LabelSelector[label]}, "=")\<close>; the lookup of a missing key
  gives the empty string.
\<close>

definition labelSelectorString :: "Plugin \<Rightarrow> string" where
  "labelSelectorString p =
     label @ ''='' @ (case LabelSelector p label of None \<Rightarrow> [] | Some v \<Rightarrow> v)"

section \<open>Resources\<close>

definition CreateOrGetPVC :: "Plugin \<Rightarrow> Cluster \<Rightarrow> World \<Rightarrow> PersistentVolumeClaim outcome \<times> World" where
  "CreateOrGetPVC p cl w =
     (let w1 = issue (Call_PVC_Get (Namespace p) (WorkspacePVC p)) w in
      case PVC_Get cl (Namespace p) (WorkspacePVC p) of
        Inr claim \<Rightarrow> (Ok claim, w1)
      | Inl err \<Rightarrow>
          (let w2 = logf WarnLevel
                 (''error while getting the PVC: [ '' @ WorkspacePVC p @ '' ], error '' @ err @ '';'') w1;
               pvc = \<lparr>
                 pvcObjectMeta = \<lparr>Name = WorkspacePVC p, Labels = LabelSelector p\<rparr>,
                 AccessModes = [ReadWriteOnce],
                 Requests = [ResourceStorage \<mapsto> ''3Gi'']\<rparr>;
               w3 = issue (Call_PVC_Create (Namespace p) pvc) w2
           in case PVC_Create cl (Namespace p) pvc of
                Inl err \<Rightarrow> (Err err, logf ErrorLevel (''could not create PVC, error '' @ err) w3)
              | Inr claim \<Rightarrow> (Ok claim, w3)))"

definition DeletePVC :: "Plugin \<Rightarrow> Cluster \<Rightarrow> World \<Rightarrow> unit outcome \<times> World" where
  "DeletePVC p cl w =
     (let w1 = issue (Call_PVC_Delete (Namespace p) (WorkspacePVC p) gracePeriodSeconds) w in
      case PVC_Delete cl (Namespace p) (WorkspacePVC p) of
        Some err \<Rightarrow>
          (Err err, logf ErrorLevel
             (''could not delete pvc:[ '' @ WorkspacePVC p @ '' ], error: '' @ err) w1)
      | None \<Rightarrow> (Ok (), w1))"

definition CreateJob :: "Plugin \<Rightarrow> Cluster \<Rightarrow> World \<Rightarrow> unit outcome \<times> World" where
  "CreateJob p cl w =
     (case assembleJob p of
        Ok jobToRun \<Rightarrow>
          (case DecorateJob p jobToRun of
             Ok jobToRun \<Rightarrow>
               (let w1 = issue (Call_Jobs_Create (Namespace p) jobToRun) w in
                case Jobs_Create cl (Namespace p) jobToRun of
                  Inl err \<Rightarrow> (Err err, logf ErrorLevel (''could not create job. error: '' @ err) w1)
                | Inr job \<Rightarrow> (Ok (), w1))
           | Err err \<Rightarrow> (Err err, logf ErrorLevel (''could not decorate job. error: '' @ err) w)
           | Panic \<Rightarrow> (Panic, w)
           | Blocked \<Rightarrow> (Blocked, w))
      | Err err \<Rightarrow> (Err err, logf ErrorLevel (''could not set up job. error: '' @ err) w)
      | Panic \<Rightarrow> (Panic, w)
      | Blocked \<Rightarrow> (Blocked, w))"

definition DeleteJob :: "Plugin \<Rightarrow> Cluster \<Rightarrow> World \<Rightarrow> unit outcome \<times> World" where
  "DeleteJob p cl w =
     (let w1 = issue (Call_Jobs_Delete (Namespace p) (JobName p) gracePeriodSeconds) w in
      case Jobs_Delete cl (Namespace p) (JobName p) of
        Some err \<Rightarrow> (Err err, w1)
      | None \<Rightarrow> (Ok (), w1))"

text \<open>
  \<^verbatim>\<open>Cleanup\<close> calls \<^verbatim>\<open>DeleteJob\<close> and drops what it returns; its call of \<^verbatim>\<open>DeletePVC\<close> is
  commented out.
\<close>

definition Cleanup :: "Plugin \<Rightarrow> Cluster \<Rightarrow> World \<Rightarrow> World" where
  "Cleanup p cl w = snd (DeleteJob p cl w)"

section \<open>Events\<close>

text \<open>
  A \<^verbatim>\<open>watch.Event\<close>: its type (any string other than the four the handlers name is
  \<open>OtherType\<close>) and its object. The handlers assert the dynamic type of the object, a job for
  the job handler and a pod for the pod handler; the assertion panics on any other object.
\<close>

datatype EventType = Added | Modified | Deleted | Error | OtherType

record JobStatus =
  Active :: int32
  Succeeded :: int32
  Failed :: int32

datatype Object = JobObject string JobStatus | PodObject string | StatusObject

record Event =
  Type :: EventType
  Object :: Object

text \<open>\<^verbatim>\<open>fmt.Sprintf("%d", n)\<close>: the decimal digits of \<open>n\<close>, after a minus sign when \<open>n\<close> is negative.\<close>

fun digits :: "nat \<Rightarrow> string" where
  "digits n =
     (if n < 10 then [''0123456789'' ! n]
      else digits (n div 10) @ [''0123456789'' ! (n mod 10)])"

declare digits.simps [simp del]

definition Sprintf_d :: "int \<Rightarrow> string" where
  "Sprintf_d n = (if n < 0 then CHR ''-'' # digits (nat (- n)) else digits (nat n))"

definition failedPodsError :: "int32 \<Rightarrow> error" where
  "failedPodsError failed = ''there are [ '' @ Sprintf_d (sint failed) @ '' ] failed pods''"

section \<open>Opening the subscriptions\<close>

definition WatchJob :: "Plugin \<Rightarrow> Cluster \<Rightarrow> World \<Rightarrow> unit outcome \<times> World" where
  "WatchJob p cl w =
     (let options = \<lparr>Watch = True, optLabelSelector = labelSelectorString p\<rparr>;
          w1 = issue (Call_Jobs_Watch (Namespace p) options) w
      in case Jobs_Watch cl (Namespace p) options of
           Some err \<Rightarrow>
             (Err err, watchingStatusOff JobWatcherStatusKey
                (logf ErrorLevel (''could not watch jobs. err: '' @ err) w1))
         | None \<Rightarrow>
             (Ok (), watchingStatusOn JobWatcherStatusKey (w1\<lparr>jobWatcher := newWatcher\<rparr>)))"

text \<open>\<^verbatim>\<open>WatchPod\<close> returns the index of the subscription it opened.\<close>

definition WatchPod :: "Plugin \<Rightarrow> Cluster \<Rightarrow> World \<Rightarrow> nat outcome \<times> World" where
  "WatchPod p cl w =
     (let options = \<lparr>Watch = False, optLabelSelector = labelSelectorString p\<rparr>;
          w1 = issue (Call_Pods_Watch (Namespace p) options) w
      in case Pods_Watch cl (length (podWatchers w)) of
           Some err \<Rightarrow>
             (Err err, watchingStatusOff PodWatcherStatusKey
                (logf ErrorLevel (''could not watch pod. err: '' @ err) w1))
         | None \<Rightarrow>
             (Ok (length (podWatchers w)),
              watchingStatusOn PodWatcherStatusKey
                (w1\<lparr>podWatchers := podWatchers w1 @ [newWatcher]\<rparr>)))"

section \<open>The handlers\<close>

text \<open>The two \<^verbatim>\<open>go\<close> statements: the new goroutine is recorded and runs when it is scheduled.\<close>

definition go_PodEvents :: "nat \<Rightarrow> World \<Rightarrow> World" where
  "go_PodEvents podWatcher w = w\<lparr>podTasks := podTasks w @ [podWatcher]\<rparr>"

definition go_WatchLogs :: "string \<Rightarrow> World \<Rightarrow> World" where
  "go_WatchLogs podName w =
     w\<lparr>logTasks := logTasks w @ [\<lparr>ltPodName = podName, ltPhase = Spawned\<rparr>]\<rparr>"

definition handleJobEvent :: "Plugin \<Rightarrow> Cluster \<Rightarrow> Event \<Rightarrow> World \<Rightarrow> unit outcome \<times> World" where
  "handleJobEvent p cl event w =
     (case Object event of
        JobObject name status \<Rightarrow>
          (case Type event of
             Added \<Rightarrow> (Ok (), w)
           | Modified \<Rightarrow>
               if 0 < sint (Failed status)
               then (Err (failedPodsError (Failed status)), stopJobWatcher w)
               else if 0 < sint (Succeeded status)
               then (Ok (), stopJobWatcher w)
               else if watchingStatus PodWatcherStatusKey w = True
               then (Ok (), w)
               else (case WatchPod p cl w of
                       (Ok podWatcher, w1) \<Rightarrow> (Ok (), go_PodEvents podWatcher (WgAdd1 w1))
                     | (Err err, w1) \<Rightarrow> (Err err, logf ErrorLevel ''could not watch pod'' w1)
                     | (Panic, w1) \<Rightarrow> (Panic, w1)
                     | (Blocked, w1) \<Rightarrow> (Blocked, w1))
           | Deleted \<Rightarrow> (Ok (), stopJobWatcher w)
           | Error \<Rightarrow> (Ok (), w)
           | OtherType \<Rightarrow> (Ok (), w))
      | PodObject name \<Rightarrow> (Panic, w)
      | StatusObject \<Rightarrow> (Panic, w))"

text \<open>\<open>i\<close> is the index of the pod subscription the event came from.\<close>

definition handlePodEvent :: "Plugin \<Rightarrow> nat \<Rightarrow> Event \<Rightarrow> World \<Rightarrow> unit outcome \<times> World" where
  "handlePodEvent p i event w =
     (case Object event of
        PodObject name \<Rightarrow>
          (case Type event of
             Added \<Rightarrow> (Ok (), w)
           | Modified \<Rightarrow>
               if watchingStatus LogWatcherStatusKey w = True
               then (Ok (), w)
               else (Ok (), go_WatchLogs name w)
           | Error \<Rightarrow> (Ok (), w)
           | Deleted \<Rightarrow> (Ok (), watchingStatusOff PodWatcherStatusKey (stopPodWatcher i w))
           | OtherType \<Rightarrow> (Ok (), w))
      | JobObject name status \<Rightarrow> (Panic, w)
      | StatusObject \<Rightarrow> (Panic, w))"

section \<open>The log streamer\<close>

text \<open>
  \<^verbatim>\<open>WatchLogs\<close> blocks twice: in \<^verbatim>\<open>req.Stream()\<close> and in \<^verbatim>\<open>io.Copy\<close>. It is two steps:
  \<open>WatchLogs_open\<close> runs from the entry of the function to the return of \<^verbatim>\<open>req.Stream()\<close>, whose
  error is \<open>err\<close>, and on to the early return or to the call of \<^verbatim>\<open>io.Copy\<close>;
  \<open>WatchLogs_copied\<close> runs from the return of \<^verbatim>\<open>io.Copy\<close>, whose error is \<open>err\<close>, to the end
  of the function. \<open>i\<close> is the index of the goroutine. The bytes that \<^verbatim>\<open>io.Copy\<close> writes to
  the standard output are not part of the state.
\<close>

definition setLogPhase :: "nat \<Rightarrow> LogPhase \<Rightarrow> World \<Rightarrow> World" where
  "setLogPhase i ph w = w\<lparr>logTasks := (logTasks w)[i := (logTasks w ! i)\<lparr>ltPhase := ph\<rparr>]\<rparr>"

definition WatchLogs_open :: "Plugin \<Rightarrow> nat \<Rightarrow> error option \<Rightarrow> World \<Rightarrow> unit outcome \<times> World" where
  "WatchLogs_open p i err w =
     (let podName = ltPodName (logTasks w ! i);
          w1 = issue (Call_Pods_GetLogs (Namespace p) podName True) w
      in case err of
           Some e \<Rightarrow> (Ok (), setLogPhase i Finished (watchingStatusOff LogWatcherStatusKey w1))
         | None \<Rightarrow>
             (Ok (), setLogPhase i Streaming
                (watchingStatusOn LogWatcherStatusKey
                   (logf InfoLevel (''***** streaming the logs for pod [ '' @ podName @ '' ] *****'') w1))))"

definition WatchLogs_copied :: "Plugin \<Rightarrow> nat \<Rightarrow> error option \<Rightarrow> World \<Rightarrow> unit outcome \<times> World" where
  "WatchLogs_copied p i err w =
     (let podName = ltPodName (logTasks w ! i);
          w1 = watchingStatusOff LogWatcherStatusKey w;
          w2 = logf InfoLevel (''***** end of the logs for pod [ '' @ podName @ '' ] *****'') w1
      in case WgDone w2 of
           (Ok u, w3) \<Rightarrow> (Ok (), setLogPhase i Finished w3)
         | (r, w3) \<Rightarrow> (r, w3))"

section \<open>Scheduling\<close>

text \<open>
  What happens in a run, one action at a time: the job subscription delivers an event, or
  the library closes its result channel; pod subscription \<open>i\<close> delivers an event, or the
  library closes its result channel; \<^verbatim>\<open>req.Stream()\<close> of log streamer \<open>i\<close> returns; \<^verbatim>\<open>io.Copy\<close>
  of log streamer \<open>i\<close> returns. A schedule is a list of actions. Each handler call and each
  of the two steps of a log streamer is one action, so the schedules interleave the
  goroutines at that grain. A subscription that was stopped may still deliver events, those
  on their way at the \<^verbatim>\<open>Stop()\<close>, until its channel is closed.
\<close>

datatype Action =
    JobEvent Event
  | JobChannelClosed
  | PodEvent nat Event
  | PodChannelClosed nat
  | StreamReturns nat "error option"
  | CopyReturns nat "error option"

text \<open>
  One action, as far as it concerns the goroutines other than the main one; the case
  \<open>PodEvent\<close> is one iteration of the loop of \<^verbatim>\<open>PodEvents\<close>, which goes on until the channel
  is closed. An action that cannot happen in the state (an event of a subscription whose
  channel is closed or that no goroutine ranges over, a step of a log streamer that is not
  at that point) changes nothing.
\<close>

definition background :: "Plugin \<Rightarrow> Action \<Rightarrow> World \<Rightarrow> unit outcome \<times> World" where
  "background p a w =
     (case a of
        JobEvent event \<Rightarrow> (Ok (), w)
      | JobChannelClosed \<Rightarrow> (Ok (), w\<lparr>jobWatcher := (jobWatcher w)\<lparr>ended := True\<rparr>\<rparr>)
      | PodEvent i event \<Rightarrow>
          if i \<in> set (podTasks w) \<and> i < length (podWatchers w) \<and> \<not> ended (podWatchers w ! i)
          then handlePodEvent p i event w
          else (Ok (), w)
      | PodChannelClosed i \<Rightarrow>
          if i < length (podWatchers w)
          then (Ok (), w\<lparr>podWatchers := (podWatchers w)[i := (podWatchers w ! i)\<lparr>ended := True\<rparr>]\<rparr>)
          else (Ok (), w)
      | StreamReturns i err \<Rightarrow>
          if i < length (logTasks w) \<and> ltPhase (logTasks w ! i) = Spawned
          then WatchLogs_open p i err w
          else (Ok (), w)
      | CopyReturns i err \<Rightarrow>
          if i < length (logTasks w) \<and> ltPhase (logTasks w ! i) = Streaming
          then WatchLogs_copied p i err w
          else (Ok (), w))"

text \<open>
  \<^verbatim>\<open>JobEvents\<close>: the \<^verbatim>\<open>range\<close> over the result channel of the job subscription. The loop ends
  when the channel is closed; until then it handles every job event delivered, also after a
  \<^verbatim>\<open>Stop()\<close>; while it waits for the next job event the other goroutines run. When the
  schedule is used up and the channel is still open, the library closes it if the
  subscription was stopped, and the loop ends; if it was not stopped, the loop waits for
  ever. The function also returns the rest of the schedule.
\<close>

fun JobEvents :: "Plugin \<Rightarrow> Cluster \<Rightarrow> Action list \<Rightarrow> World \<Rightarrow> unit outcome \<times> Action list \<times> World" where
  "JobEvents p cl [] w =
     (if ended (jobWatcher w) then (Ok (), [], w)
      else if 0 < stops (jobWatcher w)
      then (Ok (), [], w\<lparr>jobWatcher := (jobWatcher w)\<lparr>ended := True\<rparr>\<rparr>)
      else (Blocked, [], w))"
| "JobEvents p cl (a # sched) w =
     (if ended (jobWatcher w) then (Ok (), a # sched, w)
      else case a of
             JobEvent event \<Rightarrow>
               (case handleJobEvent p cl event w of
                  (Ok u, w1) \<Rightarrow> JobEvents p cl sched w1
                | (r, w1) \<Rightarrow> (r, sched, w1))
           | _ \<Rightarrow>
               (case background p a w of
                  (Ok u, w1) \<Rightarrow> JobEvents p cl sched w1
                | (r, w1) \<Rightarrow> (r, sched, w1)))"

text \<open>
  \<^verbatim>\<open>p.Wg.Wait()\<close>: returns once the counter is 0; the other goroutines run meanwhile. The
  channel of the job subscription is closed by then, so no job event is received any more.
\<close>

fun WgWait :: "Plugin \<Rightarrow> Action list \<Rightarrow> World \<Rightarrow> unit outcome \<times> Action list \<times> World" where
  "WgWait p [] w = (if Wg w = 0 then (Ok (), [], w) else (Blocked, [], w))"
| "WgWait p (a # sched) w =
     (if Wg w = 0 then (Ok (), a # sched, w)
      else case background p a w of
             (Ok u, w1) \<Rightarrow> WgWait p sched w1
           | (r, w1) \<Rightarrow> (r, sched, w1))"

section \<open>The run\<close>

text \<open>
  \<^verbatim>\<open>run\<close> of main.go. The plugin value it builds from the command line and the environment is
  the parameter \<open>p\<close>; the line it logs about the path of the kube config is left out. When
  \<^verbatim>\<open>run\<close> returns the process exits, whatever the other goroutines are doing.
\<close>

definition run :: "Plugin \<Rightarrow> Cluster \<Rightarrow> Action list \<Rightarrow> World \<Rightarrow> unit outcome \<times> World" where
  "run p cl sched w =
     (case BuildConfigFromFlags cl of
        Some err \<Rightarrow> (Err err, logf ErrorLevel (''could not build kubeconfig. err: '' @ err) w)
      | None \<Rightarrow>
     (case NewForConfig cl of
        Some err \<Rightarrow> (Err err, logf ErrorLevel (''could not get client set  '' @ err) w)
      | None \<Rightarrow>
     (case CreateOrGetPVC p cl w of
        (Err err, w1) \<Rightarrow> (Err err, logf ErrorLevel (''could not create PVC. err [ '' @ err @ '' ]'') w1)
      | (Panic, w1) \<Rightarrow> (Panic, w1)
      | (Blocked, w1) \<Rightarrow> (Blocked, w1)
      | (Ok claim, w1) \<Rightarrow>
     (case WatchJob p cl w1 of
        (Err err, w2) \<Rightarrow> (Err err, logf ErrorLevel (''could not watch jobs. err [ '' @ err @ '' ]'') w2)
      | (Panic, w2) \<Rightarrow> (Panic, w2)
      | (Blocked, w2) \<Rightarrow> (Blocked, w2)
      | (Ok u, w2) \<Rightarrow>
     (case CreateJob p cl w2 of
        (Err err, w3) \<Rightarrow> (Err err, stopJobWatcher w3)
      | (Panic, w3) \<Rightarrow> (Panic, w3)
      | (Blocked, w3) \<Rightarrow> (Blocked, w3)
      | (Ok u, w3) \<Rightarrow>
     (case JobEvents p cl sched w3 of
        (Err err, rest, w4) \<Rightarrow> (Err err, logf ErrorLevel (''error encountered: '' @ err) w4)
      | (Panic, rest, w4) \<Rightarrow> (Panic, w4)
      | (Blocked, rest, w4) \<Rightarrow> (Blocked, w4)
      | (Ok u, rest, w4) \<Rightarrow>
     (case WgWait p rest w4 of
        (Ok u, rest', w5) \<Rightarrow> (Ok (), Cleanup p cl w5)
      | (r, rest', w5) \<Rightarrow> (r, w5))))))))"

section \<open>Example values\<close>

definition exPlugin :: Plugin where
  "exPlugin = \<lparr>
     JobName = ''job-1'',
     Namespace = ''default'',
     Image = ''bash'',
     Workspace = ''/tmp'',
     WorkspacePVC = ''repository-0-workspace'',
     ServiceAccount = ''default'',
     OriginalCommands = Some [''echo hello''],
     LabelSelector = [label \<mapsto> ''labelValue''],
     Env = [(''PLUGIN_A'', ''x''), (''FOO'', ''y''), (''DRONE_B'', ''z'')]\<rparr>"

text \<open>A cluster that has no storage claim yet and answers every call with success.\<close>

definition exCluster :: Cluster where
  "exCluster = \<lparr>
     BuildConfigFromFlags = None,
     NewForConfig = None,
     PVC_Get = (\<lambda>ns n. Inl ''not found''),
     PVC_Create = (\<lambda>ns c. Inr c),
     PVC_Delete = (\<lambda>ns n. None),
     Jobs_Watch = (\<lambda>ns opts. None),
     Jobs_Create = (\<lambda>ns j. Inr j),
     Jobs_Delete = (\<lambda>ns n. None),
     Pods_Watch = (\<lambda>k. None)\<rparr>"

definition exJobEvent :: "EventType \<Rightarrow> int32 \<Rightarrow> int32 \<Rightarrow> Event" where
  "exJobEvent t failed succeeded =
     \<lparr>Type = t, Object = JobObject ''job-1'' \<lparr>Active = 0, Succeeded = succeeded, Failed = failed\<rparr>\<rparr>"

definition exPodEvent :: "EventType \<Rightarrow> Event" where
  "exPodEvent t = \<lparr>Type = t, Object = PodObject ''pod-1''\<rparr>"

text \<open>The state in which \<^verbatim>\<open>run\<close> calls \<^verbatim>\<open>JobEvents\<close>, but for the calls issued and lines logged.\<close>

definition watchingWorld :: World where
  "watchingWorld = watchingStatusOn JobWatcherStatusKey initWorld"

text \<open>A storage claim that exists already, of another size and access mode.\<close>

definition exClaim :: PersistentVolumeClaim where
  "exClaim = \<lparr>
     pvcObjectMeta = \<lparr>Name = ''repository-0-workspace'', Labels = Map.empty\<rparr>,
     AccessModes = [ReadWriteMany],
     Requests = [ResourceStorage \<mapsto> ''10Gi'']\<rparr>"

section \<open>Notions for the properties\<close>

text \<open>
  One iteration of the loop of \<open>JobEvents\<close> with the waiting before it: a job event goes to
  \<open>handleJobEvent\<close>, any other action to the goroutine it belongs to.
\<close>

definition jobLoopStep :: "Plugin \<Rightarrow> Cluster \<Rightarrow> Action \<Rightarrow> World \<Rightarrow> unit outcome \<times> World" where
  "jobLoopStep p cl a w =
     (case a of
        JobEvent event \<Rightarrow> handleJobEvent p cl event w
      | _ \<Rightarrow> background p a w)"

text \<open>
  The pod subscriptions that are active in a state, that is neither stopped nor with a
  closed channel; and the job events that
  reach the third test of the Modified case of \<open>handleJobEvent\<close>: type Modified, a job as
  object, neither count greater than 0.
\<close>

definition activePodWatchers :: "World \<Rightarrow> Watcher list" where
  "activePodWatchers w = filter (\<lambda>wt. \<not> closed wt) (podWatchers w)"

definition runningModified :: "Event \<Rightarrow> bool" where
  "runningModified event =
     (case Object event of
        JobObject name status \<Rightarrow>
          Type event = Modified \<and> \<not> 0 < sint (Failed status) \<and> \<not> 0 < sint (Succeeded status)
      | PodObject name \<Rightarrow> False
      | StatusObject \<Rightarrow> False)"

text \<open>
  The actions other than the handling of a pod event of type Deleted; and what it means that
  at most one pod watcher was spawned between a state \<open>w0\<close> and a later state \<open>w\<close>: none was,
  or the pod flag is on and one subscription was opened and one \<open>PodEvents\<close> goroutine spawned
  on it.
\<close>

definition noPodDeleted :: "Action \<Rightarrow> bool" where
  "noPodDeleted a =
     (case a of
        PodEvent i event \<Rightarrow> Type event \<noteq> Deleted
      | _ \<Rightarrow> True)"

definition spawnedAtMostOnce :: "World \<Rightarrow> World \<Rightarrow> bool" where
  "spawnedAtMostOnce w0 w =
     ((podTasks w = podTasks w0 \<and> length (podWatchers w) = length (podWatchers w0))
      \<or> (watchingStatus PodWatcherStatusKey w
          \<and> podTasks w = podTasks w0 @ [length (podWatchers w0)]
          \<and> length (podWatchers w) = length (podWatchers w0) + 1))"

section \<open>Unfolding\<close>

lemmas world_defs =
  watchingStatusOn_def watchingStatusOff_def watchingStatus_def logf_def issue_def
  stopJobWatcher_def stopPodWatcher_def WgAdd1_def WgDone_def go_PodEvents_def go_WatchLogs_def
  setLogPhase_def newWatcher_def Stop_def closed_def
  JobWatcherStatusKey_def PodWatcherStatusKey_def LogWatcherStatusKey_def

lemmas run_defs =
  run_def CreateOrGetPVC_def WatchJob_def WatchPod_def CreateJob_def assembleJob_def DecorateJob_def
  handleJobEvent_def handlePodEvent_def WatchLogs_open_def WatchLogs_copied_def background_def
  Cleanup_def DeleteJob_def labelSelectorString_def label_def gracePeriodSeconds_def

lemmas ex_defs =
  exPlugin_def exCluster_def exJobEvent_def exPodEvent_def initWorld_def

section \<open>Properties of the container environment\<close>

lemma originalEnvVars_loop_filter:
  "originalEnvVars_loop env acc =
     acc @ map (\<lambda>(k, v). \<lparr>evName = k, evValue = v\<rparr>)
            (filter (\<lambda>(k, v). HasPrefix k pluginEnvPrefix \<or> HasPrefix k droneEnvPrefix) env)"
  by (induction env acc rule: originalEnvVars_loop.induct) simp_all

text \<open>
  C7. The container environment is the list of the entries of \<open>Env p\<close> whose key starts with
  \<open>PLUGIN_\<close> or with \<open>DRONE_\<close>, in the order in which the map was visited, each with its key
  and value unchanged; as a set it is exactly the set of those entries. When the
  environment map is \<open>{PLUGIN_A: x, FOO: y, DRONE_B: z}\<close>, in whatever order it is visited,
  the result is the set \<open>{PLUGIN_A: x, DRONE_B: z}\<close>.
\<close>

theorem originalEnvVars_exact:
  "originalEnvVars p =
     map (\<lambda>(k, v). \<lparr>evName = k, evValue = v\<rparr>)
       (filter (\<lambda>(k, v). HasPrefix k pluginEnvPrefix \<or> HasPrefix k droneEnvPrefix) (Env p))
   \<and> set (originalEnvVars p) =
       {\<lparr>evName = k, evValue = v\<rparr> | k v.
          (k, v) \<in> set (Env p) \<and> (HasPrefix k pluginEnvPrefix \<or> HasPrefix k droneEnvPrefix)}
   \<and> (set (Env p) = {(''PLUGIN_A'', ''x''), (''FOO'', ''y''), (''DRONE_B'', ''z'')} \<longrightarrow>
        set (originalEnvVars p) =
          {\<lparr>evName = ''PLUGIN_A'', evValue = ''x''\<rparr>, \<lparr>evName = ''DRONE_B'', evValue = ''z''\<rparr>})"
proof -
  have eq: "originalEnvVars p =
     map (\<lambda>(k, v). \<lparr>evName = k, evValue = v\<rparr>)
       (filter (\<lambda>(k, v). HasPrefix k pluginEnvPrefix \<or> HasPrefix k droneEnvPrefix) (Env p))"
    by (simp add: originalEnvVars_def originalEnvVars_loop_filter)
  have st: "set (originalEnvVars p) =
       {\<lparr>evName = k, evValue = v\<rparr> | k v.
          (k, v) \<in> set (Env p) \<and> (HasPrefix k pluginEnvPrefix \<or> HasPrefix k droneEnvPrefix)}"
    unfolding eq by force
  have ex: "set (originalEnvVars p) =
          {\<lparr>evName = ''PLUGIN_A'', evValue = ''x''\<rparr>, \<lparr>evName = ''DRONE_B'', evValue = ''z''\<rparr>}"
    if h: "set (Env p) = {(''PLUGIN_A'', ''x''), (''FOO'', ''y''), (''DRONE_B'', ''z'')}"
    unfolding st h by (auto simp: HasPrefix_def pluginEnvPrefix_def droneEnvPrefix_def)
  from eq st ex show ?thesis by blast
qed

theorem originalEnvVars_exact_witness:
  "set (Env exPlugin) = {(''PLUGIN_A'', ''x''), (''FOO'', ''y''), (''DRONE_B'', ''z'')}
   \<and> set (originalEnvVars exPlugin) =
       {\<lparr>evName = ''PLUGIN_A'', evValue = ''x''\<rparr>, \<lparr>evName = ''DRONE_B'', evValue = ''z''\<rparr>}"
proof -
  have h: "set (Env exPlugin) = {(''PLUGIN_A'', ''x''), (''FOO'', ''y''), (''DRONE_B'', ''z'')}"
    by (simp add: exPlugin_def)
  from originalEnvVars_exact [of exPlugin, THEN conjunct2, THEN conjunct2, THEN mp, OF h] h
  show ?thesis by (rule conjI [rotated])
qed

section \<open>Properties of the resources\<close>

text \<open>
  C8. When the lookup of the storage claim succeeds, \<open>CreateOrGetPVC\<close> returns the claim it
  found with no error, and the only thing it does is the lookup: no create call, nothing
  logged. When the lookup fails, with whatever error, it issues after the lookup exactly one
  create call, for a claim of 3Gi with the single access mode \<open>ReadWriteOnce\<close> that has the
  name and labels of the plugin, and returns the created claim, or the error of the creation.
\<close>

theorem CreateOrGetPVC_get_or_create:
  "(PVC_Get cl (Namespace p) (WorkspacePVC p) = Inr claim \<longrightarrow>
      CreateOrGetPVC p cl w =
        (Ok claim, w\<lparr>calls := calls w @ [Call_PVC_Get (Namespace p) (WorkspacePVC p)]\<rparr>))
   \<and> (PVC_Get cl (Namespace p) (WorkspacePVC p) = Inl e \<longrightarrow>
        (\<exists>pvc. pvcObjectMeta pvc = \<lparr>Name = WorkspacePVC p, Labels = LabelSelector p\<rparr>
           \<and> AccessModes pvc = [ReadWriteOnce]
           \<and> Requests pvc = [ResourceStorage \<mapsto> ''3Gi'']
           \<and> calls (snd (CreateOrGetPVC p cl w)) =
               calls w @ [Call_PVC_Get (Namespace p) (WorkspacePVC p),
                          Call_PVC_Create (Namespace p) pvc]
           \<and> fst (CreateOrGetPVC p cl w) =
               (case PVC_Create cl (Namespace p) pvc of Inl e' \<Rightarrow> Err e' | Inr created \<Rightarrow> Ok created)))"
  by (auto simp: CreateOrGetPVC_def issue_def logf_def Let_def split: sum.splits)

theorem CreateOrGetPVC_get_or_create_witness:
  "CreateOrGetPVC exPlugin (exCluster\<lparr>PVC_Get := (\<lambda>ns n. Inr exClaim)\<rparr>) initWorld =
     (Ok exClaim, initWorld\<lparr>calls := [Call_PVC_Get ''default'' ''repository-0-workspace'']\<rparr>)
   \<and> (\<exists>pvc. AccessModes pvc = [ReadWriteOnce] \<and> Requests pvc = [ResourceStorage \<mapsto> ''3Gi'']
         \<and> calls (snd (CreateOrGetPVC exPlugin exCluster initWorld)) =
             [Call_PVC_Get ''default'' ''repository-0-workspace'', Call_PVC_Create ''default'' pvc]
         \<and> fst (CreateOrGetPVC exPlugin exCluster initWorld) = Ok pvc)"
proof -
  have h1: "PVC_Get (exCluster\<lparr>PVC_Get := (\<lambda>ns n. Inr exClaim)\<rparr>) (Namespace exPlugin) (WorkspacePVC exPlugin) = Inr exClaim"
    by simp
  have h2: "PVC_Get exCluster (Namespace exPlugin) (WorkspacePVC exPlugin) = Inl ''not found''"
    by (simp add: exCluster_def)
  note a = CreateOrGetPVC_get_or_create [where cl = "exCluster\<lparr>PVC_Get := (\<lambda>ns n. Inr exClaim)\<rparr>"
      and p = exPlugin and claim = exClaim and w = initWorld,
      THEN conjunct1, THEN mp, OF h1]
  note b = CreateOrGetPVC_get_or_create [where cl = exCluster and p = exPlugin and e = "''not found''"
      and w = initWorld,
      THEN conjunct2, THEN mp, OF h2]
  from a have a': "CreateOrGetPVC exPlugin (exCluster\<lparr>PVC_Get := (\<lambda>ns n. Inr exClaim)\<rparr>) initWorld =
     (Ok exClaim, initWorld\<lparr>calls := [Call_PVC_Get ''default'' ''repository-0-workspace'']\<rparr>)"
    by (simp add: exPlugin_def initWorld_def)
  from b obtain pvc where
    "AccessModes pvc = [ReadWriteOnce]" "Requests pvc = [ResourceStorage \<mapsto> ''3Gi'']"
    "calls (snd (CreateOrGetPVC exPlugin exCluster initWorld)) =
       calls initWorld @ [Call_PVC_Get (Namespace exPlugin) (WorkspacePVC exPlugin),
                          Call_PVC_Create (Namespace exPlugin) pvc]"
    "fst (CreateOrGetPVC exPlugin exCluster initWorld) =
       (case PVC_Create exCluster (Namespace exPlugin) pvc of Inl e' \<Rightarrow> Err e' | Inr created \<Rightarrow> Ok created)"
    by blast
  then have "AccessModes pvc = [ReadWriteOnce] \<and> Requests pvc = [ResourceStorage \<mapsto> ''3Gi'']
         \<and> calls (snd (CreateOrGetPVC exPlugin exCluster initWorld)) =
             [Call_PVC_Get ''default'' ''repository-0-workspace'', Call_PVC_Create ''default'' pvc]
         \<and> fst (CreateOrGetPVC exPlugin exCluster initWorld) = Ok pvc"
    by (simp add: exPlugin_def exCluster_def initWorld_def)
  then have "\<exists>pvc. AccessModes pvc = [ReadWriteOnce] \<and> Requests pvc = [ResourceStorage \<mapsto> ''3Gi'']
         \<and> calls (snd (CreateOrGetPVC exPlugin exCluster initWorld)) =
             [Call_PVC_Get ''default'' ''repository-0-workspace'', Call_PVC_Create ''default'' pvc]
         \<and> fst (CreateOrGetPVC exPlugin exCluster initWorld) = Ok pvc" ..
  with a' show ?thesis by (rule conjI)
qed

text \<open>
  C9. The job that \<open>CreateJob\<close> submits, assembled by \<open>assembleJob\<close> and decorated by
  \<open>DecorateJob\<close>, has one container, restart policy Never, image pull policy IfNotPresent, a
  security context that is not privileged, one volume bound to the storage claim and mounted
  at the working directory, and the selected environment; the command of the container is
  \<open>["sh", "-c"]\<close> with the override commands as arguments when the plugin has a non-empty
  list of them, and is left unset otherwise. The list is non-empty, and holds the one
  override command, exactly when the variable is set to a non-empty string.
\<close>

theorem workload_description:
  "(\<exists>job0 job c.
     assembleJob p = Ok job0 \<and> DecorateJob p job0 = Ok job
     \<and> calls (snd (CreateJob p cl w)) = calls w @ [Call_Jobs_Create (Namespace p) job]
     \<and> Containers (tmplSpec (Template job)) = [c]
     \<and> podRestartPolicy (tmplSpec (Template job)) = RestartPolicyNever
     \<and> ImagePullPolicy c = PullIfNotPresent
     \<and> cSecurityContext c = Some \<lparr>Privileged = Some False\<rparr>
     \<and> Volumes (tmplSpec (Template job)) =
          [\<lparr>volName = JobName p, PersistentVolumeClaim_ClaimName = Some (WorkspacePVC p)\<rparr>]
     \<and> VolumeMounts c = [\<lparr>vmName = JobName p, MountPath = Workspace p\<rparr>]
     \<and> WorkingDir c = Workspace p
     \<and> cEnv c = originalEnvVars p
     \<and> Command c =
          (if OriginalCommands p = None \<or> OriginalCommands p = Some [] then None
           else Some [''sh'', ''-c''])
     \<and> Args c =
          (if OriginalCommands p = None \<or> OriginalCommands p = Some [] then None
           else OriginalCommands p))
   \<and> originalCommands lookup =
        (if lookup = None \<or> lookup = Some [] then None else Some [the lookup])"
proof -
  have "originalCommands lookup =
        (if lookup = None \<or> lookup = Some [] then None else Some [the lookup])"
    by (auto simp: originalCommands_def split: option.splits)
  moreover have "\<exists>job0 job c.
     assembleJob p = Ok job0 \<and> DecorateJob p job0 = Ok job
     \<and> calls (snd (CreateJob p cl w)) = calls w @ [Call_Jobs_Create (Namespace p) job]
     \<and> Containers (tmplSpec (Template job)) = [c]
     \<and> podRestartPolicy (tmplSpec (Template job)) = RestartPolicyNever
     \<and> ImagePullPolicy c = PullIfNotPresent
     \<and> cSecurityContext c = Some \<lparr>Privileged = Some False\<rparr>
     \<and> Volumes (tmplSpec (Template job)) =
          [\<lparr>volName = JobName p, PersistentVolumeClaim_ClaimName = Some (WorkspacePVC p)\<rparr>]
     \<and> VolumeMounts c = [\<lparr>vmName = JobName p, MountPath = Workspace p\<rparr>]
     \<and> WorkingDir c = Workspace p
     \<and> cEnv c = originalEnvVars p
     \<and> Command c =
          (if OriginalCommands p = None \<or> OriginalCommands p = Some [] then None
           else Some [''sh'', ''-c''])
     \<and> Args c =
          (if OriginalCommands p = None \<or> OriginalCommands p = Some [] then None
           else OriginalCommands p)"
    by (cases "OriginalCommands p")
       (auto simp: assembleJob_def DecorateJob_def CreateJob_def issue_def logf_def Let_def
             split: sum.splits)
  ultimately show ?thesis by blast
qed

theorem workload_description_witness:
  "(\<exists>job0 job c.
      assembleJob exPlugin = Ok job0 \<and> DecorateJob exPlugin job0 = Ok job
      \<and> Containers (tmplSpec (Template job)) = [c]
      \<and> Command c = Some [''sh'', ''-c''] \<and> Args c = Some [''echo hello''])
   \<and> (\<exists>job0 job c.
      assembleJob (exPlugin\<lparr>OriginalCommands := None\<rparr>) = Ok job0
      \<and> DecorateJob (exPlugin\<lparr>OriginalCommands := None\<rparr>) job0 = Ok job
      \<and> Containers (tmplSpec (Template job)) = [c]
      \<and> Command c = None \<and> Args c = None)
   \<and> originalCommands (Some ''echo hello'') = Some [''echo hello'']
   \<and> originalCommands (Some []) = None"
proof -
  note t = workload_description [where cl = exCluster and w = initWorld]
  from t [where p = exPlugin and lookup = "Some ''echo hello''"]
  obtain job0 job c where a:
    "assembleJob exPlugin = Ok job0" "DecorateJob exPlugin job0 = Ok job"
    "Containers (tmplSpec (Template job)) = [c]"
    "Command c = (if OriginalCommands exPlugin = None \<or> OriginalCommands exPlugin = Some []
                  then None else Some [''sh'', ''-c''])"
    "Args c = (if OriginalCommands exPlugin = None \<or> OriginalCommands exPlugin = Some []
               then None else OriginalCommands exPlugin)"
    and c: "originalCommands (Some ''echo hello'') =
       (if Some ''echo hello'' = None \<or> Some ''echo hello'' = Some [] then None
        else Some [the (Some ''echo hello'')])"
    by blast
  from a have a': "\<exists>job0 job c.
      assembleJob exPlugin = Ok job0 \<and> DecorateJob exPlugin job0 = Ok job
      \<and> Containers (tmplSpec (Template job)) = [c]
      \<and> Command c = Some [''sh'', ''-c''] \<and> Args c = Some [''echo hello'']"
    by (simp add: exPlugin_def)
  from c have c': "originalCommands (Some ''echo hello'') = Some [''echo hello'']"
    by simp
  from t [where p = "exPlugin\<lparr>OriginalCommands := None\<rparr>" and lookup = "Some []"]
  obtain job0 job c where b:
    "assembleJob (exPlugin\<lparr>OriginalCommands := None\<rparr>) = Ok job0"
    "DecorateJob (exPlugin\<lparr>OriginalCommands := None\<rparr>) job0 = Ok job"
    "Containers (tmplSpec (Template job)) = [c]"
    "Command c = (if OriginalCommands (exPlugin\<lparr>OriginalCommands := None\<rparr>) = None
                    \<or> OriginalCommands (exPlugin\<lparr>OriginalCommands := None\<rparr>) = Some []
                  then None else Some [''sh'', ''-c''])"
    "Args c = (if OriginalCommands (exPlugin\<lparr>OriginalCommands := None\<rparr>) = None
                 \<or> OriginalCommands (exPlugin\<lparr>OriginalCommands := None\<rparr>) = Some []
               then None else OriginalCommands (exPlugin\<lparr>OriginalCommands := None\<rparr>))"
    and d: "originalCommands (Some []) =
       (if Some [] = (None :: string option) \<or> Some [] = Some ([] :: string) then None
        else Some [the (Some [])])"
    by blast
  from b have b': "\<exists>job0 job c.
      assembleJob (exPlugin\<lparr>OriginalCommands := None\<rparr>) = Ok job0
      \<and> DecorateJob (exPlugin\<lparr>OriginalCommands := None\<rparr>) job0 = Ok job
      \<and> Containers (tmplSpec (Template job)) = [c]
      \<and> Command c = None \<and> Args c = None"
    by simp
  from d have d': "originalCommands (Some []) = None"
    by simp
  from a' b' c' d' show ?thesis by blast
qed

section \<open>Properties of the cleanup\<close>

lemma Cleanup_eq:
  "Cleanup p cl w = w\<lparr>calls := calls w @ [Call_Jobs_Delete (Namespace p) (JobName p) gracePeriodSeconds]\<rparr>"
  by (simp add: Cleanup_def DeleteJob_def issue_def Let_def split: option.splits)

lemma handleJobEvent_Jobs_Delete:
  "handleJobEvent p (cl\<lparr>Jobs_Delete := d\<rparr>) event w = handleJobEvent p cl event w"
  by (simp add: handleJobEvent_def WatchPod_def
        cong: Object.case_cong EventType.case_cong if_cong)

lemma JobEvents_Jobs_Delete:
  "JobEvents p (cl\<lparr>Jobs_Delete := d\<rparr>) sched w = JobEvents p cl sched w"
  by (induction sched arbitrary: w)
     (simp_all add: handleJobEvent_Jobs_Delete cong: Action.case_cong prod.case_cong outcome.case_cong if_cong)

lemma setup_Jobs_Delete:
  "CreateOrGetPVC p (cl\<lparr>Jobs_Delete := d\<rparr>) w = CreateOrGetPVC p cl w"
  "WatchJob p (cl\<lparr>Jobs_Delete := d\<rparr>) w = WatchJob p cl w"
  "CreateJob p (cl\<lparr>Jobs_Delete := d\<rparr>) w = CreateJob p cl w"
  by (simp_all add: CreateOrGetPVC_def WatchJob_def CreateJob_def Let_def
        cong: sum.case_cong outcome.case_cong)

lemma run_Jobs_Delete:
  "run p (cl\<lparr>Jobs_Delete := d\<rparr>) sched w = run p cl sched w"
  by (simp add: run_def setup_Jobs_Delete JobEvents_Jobs_Delete Cleanup_eq
        cong: option.case_cong prod.case_cong outcome.case_cong)

text \<open>
  C10. \<open>Cleanup\<close> changes the state by one API call only, the deletion of the job with a
  grace period of 2 seconds: it issues no deletion of the storage claim. What the deletion of
  the job answers changes neither what \<open>run\<close> returns nor the state it ends in.
\<close>

theorem Cleanup_only_deletes_job:
  "Cleanup p cl w =
     w\<lparr>calls := calls w @ [Call_Jobs_Delete (Namespace p) (JobName p) gracePeriodSeconds]\<rparr>
   \<and> gracePeriodSeconds = 2
   \<and> run p (cl\<lparr>Jobs_Delete := d\<rparr>) sched w = run p cl sched w"
  by (simp add: Cleanup_eq run_Jobs_Delete gracePeriodSeconds_def)

theorem Cleanup_only_deletes_job_witness:
  "fst (run exPlugin (exCluster\<lparr>Jobs_Delete := (\<lambda>ns n. Some ''job not found'')\<rparr>)
          [JobEvent (exJobEvent Added 0 0), JobEvent (exJobEvent Modified 0 1)] initWorld) = Ok ()
   \<and> last (calls (snd (run exPlugin (exCluster\<lparr>Jobs_Delete := (\<lambda>ns n. Some ''job not found'')\<rparr>)
          [JobEvent (exJobEvent Added 0 0), JobEvent (exJobEvent Modified 0 1)] initWorld)))
       = Call_Jobs_Delete ''default'' ''job-1'' 2"
proof -
  have ev: "fst (run exPlugin exCluster
          [JobEvent (exJobEvent Added 0 0), JobEvent (exJobEvent Modified 0 1)] initWorld) = Ok ()
      \<and> last (calls (snd (run exPlugin exCluster
          [JobEvent (exJobEvent Added 0 0), JobEvent (exJobEvent Modified 0 1)] initWorld)))
       = Call_Jobs_Delete ''default'' ''job-1'' 2"
    by (simp add: run_def exPlugin_def exCluster_def exJobEvent_def initWorld_def CreateOrGetPVC_def
          WatchJob_def CreateJob_def assembleJob_def DecorateJob_def handleJobEvent_def Cleanup_def
          DeleteJob_def world_defs gracePeriodSeconds_def Let_def)
  note eq = Cleanup_only_deletes_job [where p = exPlugin and cl = exCluster and w = initWorld
      and d = "\<lambda>ns n. Some ''job not found''"
      and sched = "[JobEvent (exJobEvent Added 0 0), JobEvent (exJobEvent Modified 0 1)]",
      THEN conjunct2, THEN conjunct2]
  show ?thesis unfolding eq using ev by simp
qed

section \<open>Properties of the loops\<close>

lemma JobEvents_Cons:
  "JobEvents p cl (a # sched) w =
     (if ended (jobWatcher w) then (Ok (), a # sched, w)
      else case jobLoopStep p cl a w of
             (Ok u, w1) \<Rightarrow> JobEvents p cl sched w1
           | (r, w1) \<Rightarrow> (r, sched, w1))"
  by (cases a) (simp_all add: jobLoopStep_def)

declare JobEvents.simps(2) [simp del]

lemma WatchPod_outcome:
  "fst (WatchPod p cl w) \<noteq> Blocked" "fst (WatchPod p cl w) \<noteq> Panic"
  by (simp_all add: WatchPod_def Let_def split: option.splits)

lemma handleJobEvent_not_Blocked: "fst (handleJobEvent p cl event w) \<noteq> Blocked"
  using WatchPod_outcome [of p cl w]
  by (auto simp: handleJobEvent_def split: Object.splits EventType.splits prod.splits outcome.splits)

lemma WatchLogs_copied_outcome:
  "fst (WatchLogs_copied p i err w) = Ok () \<or> fst (WatchLogs_copied p i err w) = Panic"
  by (simp add: WatchLogs_copied_def WgDone_def Let_def)

lemma handlePodEvent_outcome:
  "fst (handlePodEvent p i event w) = Ok () \<or> fst (handlePodEvent p i event w) = Panic"
  by (simp add: handlePodEvent_def split: Object.splits EventType.splits)

lemma background_outcome:
  "fst (background p a w) = Ok () \<or> fst (background p a w) = Panic"
  using WatchLogs_copied_outcome handlePodEvent_outcome
  by (cases a) (auto simp: background_def WatchLogs_open_def Let_def split: option.splits)

lemma jobLoopStep_not_Blocked: "fst (jobLoopStep p cl a w) \<noteq> Blocked"
  using handleJobEvent_not_Blocked [of p cl _ w] background_outcome [of p a w]
  by (cases a) (auto simp: jobLoopStep_def)

lemma JobEvents_Blocked:
  "JobEvents p cl pre w = (Blocked, r, w1) \<Longrightarrow> r = [] \<and> \<not> closed (jobWatcher w1)"
proof (induction pre arbitrary: w)
  case Nil
  then show ?case by (simp add: closed_def split: if_splits)
next
  case (Cons a pre)
  obtain r1 w2 where h: "jobLoopStep p cl a w = (r1, w2)"
    by (cases "jobLoopStep p cl a w")
  with jobLoopStep_not_Blocked [of p cl a w] have "r1 \<noteq> Blocked" by simp
  with Cons.prems h have "JobEvents p cl pre w2 = (Blocked, r, w1)"
    by (cases r1) (simp_all add: JobEvents_Cons split: if_splits)
  then show ?case by (rule Cons.IH)
qed

lemma JobEvents_append:
  "JobEvents p cl pre w = (Blocked, r, w1) \<Longrightarrow>
     JobEvents p cl (pre @ rest) w = JobEvents p cl rest w1"
proof (induction pre arbitrary: w)
  case Nil
  then show ?case by (cases rest) (auto simp: JobEvents_Cons split: if_splits)
next
  case (Cons a pre)
  obtain r1 w2 where h: "jobLoopStep p cl a w = (r1, w2)"
    by (cases "jobLoopStep p cl a w")
  with jobLoopStep_not_Blocked [of p cl a w] have nb: "r1 \<noteq> Blocked" by simp
  with Cons.prems h have opn: "\<not> ended (jobWatcher w)" and ok: "r1 = Ok ()"
    and "JobEvents p cl pre w2 = (Blocked, r, w1)"
    by (cases r1; simp add: JobEvents_Cons split: if_splits)+
  then have "JobEvents p cl (pre @ rest) w2 = JobEvents p cl rest w1"
    by (intro Cons.IH)
  with opn ok h show ?case by (simp add: JobEvents_Cons)
qed

section \<open>Properties of the failure message\<close>

lemma digit_value:
  "d < 10 \<Longrightarrow> (of_char (''0123456789'' ! d) :: nat) = 48 + d"
proof -
  assume "d < 10"
  then have "d = 0 \<or> d = 1 \<or> d = 2 \<or> d = 3 \<or> d = 4 \<or> d = 5 \<or> d = 6 \<or> d = 7
    \<or> d = 8 \<or> d = 9"
    by arith
  then show ?thesis by (elim disjE) simp_all
qed

lemma digits_value:
  "foldl (\<lambda>a c. 10 * a + (of_char c - 48)) 0 (digits n) = n"
proof (induction n rule: digits.induct)
  case (1 n)
  show ?case
  proof (cases "n < 10")
    case True
    then show ?thesis by (subst digits.simps) (simp add: digit_value)
  next
    case False
    with 1 have "foldl (\<lambda>a c. 10 * a + (of_char c - 48)) 0 (digits (n div 10)) = n div 10"
      by simp
    with False show ?thesis by (subst digits.simps) (simp add: digit_value)
  qed
qed

lemma digits_inject: "digits m = digits n \<Longrightarrow> m = n"
proof -
  assume "digits m = digits n"
  then have "foldl (\<lambda>a c. 10 * a + (of_char c - 48)) (0::nat) (digits m) =
             foldl (\<lambda>a c. 10 * a + (of_char c - 48)) 0 (digits n)"
    by (rule arg_cong)
  then show ?thesis by (simp only: digits_value)
qed

lemma failedPodsError_inject:
  assumes "0 < sint a" "0 < sint b" "failedPodsError a = failedPodsError b"
  shows "a = b"
proof -
  from assms have "digits (nat (sint a)) = digits (nat (sint b))"
    by (simp add: failedPodsError_def Sprintf_d_def)
  then have "nat (sint a) = nat (sint b)" by (rule digits_inject)
  with assms(1,2) have "sint a = sint b" by simp
  then show ?thesis by (rule signed_word_eqI)
qed

section \<open>Properties of the job loop\<close>

lemma open_Watcher: "\<not> closed wt \<Longrightarrow> wt = \<lparr>stops = 0, ended = False\<rparr>"
  by (cases wt) (simp add: closed_def)

lemma setup_not_Blocked:
  "fst (CreateOrGetPVC p cl w) \<noteq> Blocked"
  "fst (WatchJob p cl w) \<noteq> Blocked"
  "fst (CreateJob p cl w) \<noteq> Blocked"
  by (auto simp: CreateOrGetPVC_def WatchJob_def CreateJob_def assembleJob_def DecorateJob_def
        Let_def split: sum.splits option.splits list.splits)

lemma JobEvents_Ok_ended:
  "JobEvents p cl sched w = (Ok u, rest, w1) \<Longrightarrow> ended (jobWatcher w1)"
proof (induction sched arbitrary: w)
  case Nil
  then show ?case by (auto split: if_splits)
next
  case (Cons a sched)
  obtain r1 w2 where h: "jobLoopStep p cl a w = (r1, w2)"
    by (cases "jobLoopStep p cl a w")
  show ?case
  proof (cases "ended (jobWatcher w)")
    case True
    with Cons.prems show ?thesis by (simp add: JobEvents_Cons)
  next
    case False
    with Cons.prems h have "JobEvents p cl sched w2 = (Ok u, rest, w1)"
      by (cases r1) (simp_all add: JobEvents_Cons)
    then show ?thesis by (rule Cons.IH)
  qed
qed

lemma JobEvents_Ok_closed:
  "JobEvents p cl sched w = (Ok u, rest, w1) \<Longrightarrow> closed (jobWatcher w1)"
  by (simp add: closed_def JobEvents_Ok_ended)

lemma background_closed:
  "closed (jobWatcher w) \<Longrightarrow> closed (jobWatcher (snd (background p a w)))"
  by (cases a)
     (auto simp: background_def handlePodEvent_def WatchLogs_open_def WatchLogs_copied_def
        world_defs Let_def split: Object.splits EventType.splits option.splits)

lemma WgWait_closed:
  "closed (jobWatcher w) \<Longrightarrow> closed (jobWatcher (snd (snd (WgWait p sched w))))"
proof (induction sched arbitrary: w)
  case Nil
  then show ?case by simp
next
  case (Cons a sched)
  obtain r1 w2 where h: "background p a w = (r1, w2)"
    by (cases "background p a w")
  with background_closed [OF Cons.prems, of p a] have "closed (jobWatcher w2)" by simp
  with Cons.IH [of w2] Cons.prems h show ?case by (cases r1) simp_all
qed

lemma run_waiting:
  assumes "run p cl pre w = (Blocked, w1)" and "\<not> closed (jobWatcher w1)"
  shows "\<exists>claim wa wb wc.
          BuildConfigFromFlags cl = None \<and> NewForConfig cl = None
          \<and> CreateOrGetPVC p cl w = (Ok claim, wa) \<and> WatchJob p cl wa = (Ok (), wb)
          \<and> CreateJob p cl wb = (Ok (), wc) \<and> JobEvents p cl pre wc = (Blocked, [], w1)"
proof -
  obtain ra wa where a: "CreateOrGetPVC p cl w = (ra, wa)" by (cases "CreateOrGetPVC p cl w")
  obtain rb wb where b: "WatchJob p cl wa = (rb, wb)" by (cases "WatchJob p cl wa")
  obtain rc wc where c: "CreateJob p cl wb = (rc, wc)" by (cases "CreateJob p cl wb")
  obtain rd rest wd where d: "JobEvents p cl pre wc = (rd, rest, wd)"
    by (cases "JobEvents p cl pre wc")
  obtain re rest' we where e: "WgWait p rest wd = (re, rest', we)"
    by (cases "WgWait p rest wd")
  from setup_not_Blocked(1) [of p cl w] a have na: "ra \<noteq> Blocked" by simp
  from setup_not_Blocked(2) [of p cl wa] b have nb: "rb \<noteq> Blocked" by simp
  from setup_not_Blocked(3) [of p cl wb] c have nc: "rc \<noteq> Blocked" by simp
  have nd: "rd \<noteq> Ok ()"
  proof
    assume "rd = Ok ()"
    with d have "closed (jobWatcher wd)" by (auto dest: JobEvents_Ok_closed)
    with WgWait_closed [of wd p rest] e have "closed (jobWatcher we)" by simp
    moreover from assms(1) a b c d e \<open>rd = Ok ()\<close> na nb nc have "we = w1"
      by (auto simp: run_def Cleanup_def split: option.splits outcome.splits)
    ultimately show False using assms(2) by simp
  qed
  from assms(1) a b c d na nb nc nd
  have "BuildConfigFromFlags cl = None \<and> NewForConfig cl = None \<and> ra = Ok (case ra of Ok x \<Rightarrow> x)
      \<and> rb = Ok () \<and> rc = Ok () \<and> rd = Blocked \<and> wd = w1"
    by (auto simp: run_def split: option.splits outcome.splits)
  moreover with d have "rest = []" by (auto dest: JobEvents_Blocked)
  ultimately show ?thesis using a b c d by metis
qed

lemma handleJobEvent_failed:
  assumes "Type event = Modified" "Object event = JobObject name status" "0 < sint (Failed status)"
  shows "handleJobEvent p cl event w =
           (Err (failedPodsError (Failed status)), w\<lparr>jobWatcher := Stop (jobWatcher w)\<rparr>)"
  using assms by (simp add: handleJobEvent_def stopJobWatcher_def)

lemma run_continues:
  assumes "run p cl pre w = (Blocked, w1)" and "\<not> closed (jobWatcher w1)"
    and "JobEvents p cl sched w1 = (Err e, rest, w2)"
  shows "run p cl (pre @ sched) w = (Err e, logf ErrorLevel (''error encountered: '' @ e) w2)"
proof -
  from run_waiting [OF assms(1,2)] obtain claim wa wb wc where s:
    "BuildConfigFromFlags cl = None" "NewForConfig cl = None"
    "CreateOrGetPVC p cl w = (Ok claim, wa)" "WatchJob p cl wa = (Ok (), wb)"
    "CreateJob p cl wb = (Ok (), wc)" "JobEvents p cl pre wc = (Blocked, [], w1)"
    by blast
  from JobEvents_append [OF s(6)] assms(3)
  have "JobEvents p cl (pre @ sched) wc = (Err e, rest, w2)" by simp
  with s show ?thesis by (simp add: run_def)
qed

text \<open>
  C1. A job event of type Modified whose failed-pod count is greater than 0, whatever its
  succeeded-pod count: \<open>handleJobEvent\<close> stops the job subscription once and returns the
  error \<open>there are [ n ] failed pods\<close>, \<open>n\<close> the count in decimal, and changes nothing else.
  When \<open>JobEvents\<close> is waiting for a job event and receives that one, it returns the error at
  once and the subscription has been stopped exactly once; \<open>run\<close> then logs the error and
  returns it, without cleanup. Two positive counts with the same message are equal.
\<close>

theorem failed_job_ends_run:
  assumes "Type event = Modified" and "Object event = JobObject name status"
    and "0 < sint (Failed status)"
  shows "handleJobEvent p cl event w =
           (Err (failedPodsError (Failed status)), w\<lparr>jobWatcher := Stop (jobWatcher w)\<rparr>)
    \<and> (JobEvents p cl pre w = (Blocked, [], w1) \<longrightarrow>
         JobEvents p cl (pre @ JobEvent event # rest) w =
           (Err (failedPodsError (Failed status)), rest,
            w1\<lparr>jobWatcher := \<lparr>stops = 1, ended = False\<rparr>\<rparr>))
    \<and> (run p cl pre w = (Blocked, w1) \<and> \<not> closed (jobWatcher w1) \<longrightarrow>
         run p cl (pre @ JobEvent event # rest) w =
           (Err (failedPodsError (Failed status)),
            w1\<lparr>jobWatcher := \<lparr>stops = 1, ended = False\<rparr>,
               logged := logged w1 @
                 [(ErrorLevel, ''error encountered: '' @ failedPodsError (Failed status))]\<rparr>))
    \<and> failedPodsError (Failed status) =
         ''there are [ '' @ digits (nat (sint (Failed status))) @ '' ] failed pods''
    \<and> (\<forall>failed'. 0 < sint failed' \<and> failedPodsError failed' = failedPodsError (Failed status)
         \<longrightarrow> failed' = Failed status)"
proof -
  note h = handleJobEvent_failed [OF assms]
  have step: "JobEvents p cl (JobEvent event # rest) w1 =
           (Err (failedPodsError (Failed status)), rest,
            w1\<lparr>jobWatcher := \<lparr>stops = 1, ended = False\<rparr>\<rparr>)"
    if "\<not> closed (jobWatcher w1)" for w1
    using that open_Watcher [OF that] h [of p cl w1]
    by (simp add: JobEvents_Cons jobLoopStep_def Stop_def)
  have a: "JobEvents p cl (pre @ JobEvent event # rest) w =
           (Err (failedPodsError (Failed status)), rest,
            w1\<lparr>jobWatcher := \<lparr>stops = 1, ended = False\<rparr>\<rparr>)"
    if "JobEvents p cl pre w = (Blocked, [], w1)"
    using JobEvents_append [OF that] JobEvents_Blocked [OF that] step by simp
  have b: "run p cl (pre @ JobEvent event # rest) w =
           (Err (failedPodsError (Failed status)),
            w1\<lparr>jobWatcher := \<lparr>stops = 1, ended = False\<rparr>,
               logged := logged w1 @
                 [(ErrorLevel, ''error encountered: '' @ failedPodsError (Failed status))]\<rparr>)"
    if "run p cl pre w = (Blocked, w1)" "\<not> closed (jobWatcher w1)"
    using run_continues [OF that step [OF that(2)]] by (simp add: logf_def)
  have c: "failedPodsError (Failed status) =
         ''there are [ '' @ digits (nat (sint (Failed status))) @ '' ] failed pods''"
    using assms(3) by (simp add: failedPodsError_def Sprintf_d_def)
  have d: "failed' = Failed status"
    if "0 < sint failed'" "failedPodsError failed' = failedPodsError (Failed status)" for failed'
    by (rule failedPodsError_inject [OF that(1) assms(3) that(2)])
  from h a b c d show ?thesis by blast
qed

theorem failed_job_ends_run_witness:
  "fst (run exPlugin exCluster
     [JobEvent (exJobEvent Added 0 0), JobEvent (exJobEvent Modified 0 0),
      JobEvent (exJobEvent Modified 1 0)] initWorld) = Err ''there are [ 1 ] failed pods''
   \<and> stops (jobWatcher (snd (run exPlugin exCluster
     [JobEvent (exJobEvent Added 0 0), JobEvent (exJobEvent Modified 0 0),
      JobEvent (exJobEvent Modified 1 0)] initWorld))) = 1
   \<and> fst (JobEvents exPlugin exCluster
     [JobEvent (exJobEvent Added 0 0), JobEvent (exJobEvent Modified 0 0),
      JobEvent (exJobEvent Modified 1 0)] watchingWorld) = Err ''there are [ 1 ] failed pods''
   \<and> stops (jobWatcher (snd (snd (JobEvents exPlugin exCluster
     [JobEvent (exJobEvent Added 0 0), JobEvent (exJobEvent Modified 0 0),
      JobEvent (exJobEvent Modified 1 0)] watchingWorld)))) = 1
   \<and> failedPodsError 2 \<noteq> failedPodsError 1"
proof -
  let ?pre = "[JobEvent (exJobEvent Added 0 0), JobEvent (exJobEvent Modified 0 0)]"
  let ?w1 = "snd (run exPlugin exCluster ?pre initWorld)"
  let ?w2 = "snd (snd (JobEvents exPlugin exCluster ?pre watchingWorld))"
  have h1: "Type (exJobEvent Modified 1 0) = Modified"
    and h2: "Object (exJobEvent Modified 1 0) =
               JobObject ''job-1'' \<lparr>Active = 0, Succeeded = 0, Failed = 1\<rparr>"
    and h3: "0 < sint (Failed \<lparr>Active = 0, Succeeded = 0, Failed = (1 :: int32)\<rparr>)"
    by (simp_all add: exJobEvent_def)
  have "fst (run exPlugin exCluster ?pre initWorld) = Blocked \<and> \<not> closed (jobWatcher ?w1)"
    by (simp add: run_defs world_defs ex_defs jobLoopStep_def JobEvents_Cons Let_def)
  then have h4: "run exPlugin exCluster ?pre initWorld = (Blocked, ?w1) \<and> \<not> closed (jobWatcher ?w1)"
    by (simp add: prod_eq_iff)
  have "fst (JobEvents exPlugin exCluster ?pre watchingWorld) = Blocked
      \<and> fst (snd (JobEvents exPlugin exCluster ?pre watchingWorld)) = []"
    by (simp add: run_defs world_defs ex_defs watchingWorld_def jobLoopStep_def JobEvents_Cons Let_def)
  then have h5: "JobEvents exPlugin exCluster ?pre watchingWorld = (Blocked, [], ?w2)"
    by (simp add: prod_eq_iff)
  have m: "failedPodsError (Failed \<lparr>Active = 0, Succeeded = 0, Failed = (1 :: int32)\<rparr>) =
      ''there are [ 1 ] failed pods''"
    by (simp add: failedPodsError_def Sprintf_d_def digits.simps)
  note t = failed_job_ends_run [OF h1 h2 h3, where p = exPlugin and cl = exCluster and pre = ?pre
      and rest = "[]"]
  from t [where w = initWorld and ?w1.0 = ?w1, THEN conjunct2, THEN conjunct2, THEN conjunct1,
      THEN mp, OF h4]
  have a: "fst (run exPlugin exCluster (?pre @ [JobEvent (exJobEvent Modified 1 0)]) initWorld) =
        Err ''there are [ 1 ] failed pods''
      \<and> stops (jobWatcher (snd (run exPlugin exCluster
           (?pre @ [JobEvent (exJobEvent Modified 1 0)]) initWorld))) = 1"
    unfolding m by simp
  from t [where w = watchingWorld and ?w1.0 = ?w2, THEN conjunct2, THEN conjunct1, THEN mp, OF h5]
  have b: "fst (JobEvents exPlugin exCluster (?pre @ [JobEvent (exJobEvent Modified 1 0)])
           watchingWorld) = Err ''there are [ 1 ] failed pods''
      \<and> stops (jobWatcher (snd (snd (JobEvents exPlugin exCluster
           (?pre @ [JobEvent (exJobEvent Modified 1 0)]) watchingWorld)))) = 1"
    unfolding m by simp
  from t [where w = initWorld and ?w1.0 = ?w1, THEN conjunct2, THEN conjunct2, THEN conjunct2,
      THEN conjunct2, THEN spec, of 2]
  have c: "failedPodsError 2 \<noteq> failedPodsError 1"
    by auto
  from a b c show ?thesis by simp
qed

lemma handleJobEvent_succeeded:
  assumes "Type event = Modified" "Object event = JobObject name status"
    "\<not> 0 < sint (Failed status)" "0 < sint (Succeeded status)"
  shows "handleJobEvent p cl event w = (Ok (), w\<lparr>jobWatcher := Stop (jobWatcher w)\<rparr>)"
  using assms by (simp add: handleJobEvent_def stopJobWatcher_def)

lemma handleJobEvent_Added:
  assumes "Type event = Added" "Object event = JobObject name status"
  shows "handleJobEvent p cl event w = (Ok (), w)"
  using assms by (simp add: handleJobEvent_def)

lemma JobEvents_ended:
  "ended (jobWatcher w) \<Longrightarrow> JobEvents p cl sched w = (Ok (), sched, w)"
  by (cases sched) (simp_all add: JobEvents_Cons)

lemma run_continues_Ok:
  assumes "run p cl pre w = (Blocked, w1)" and "\<not> closed (jobWatcher w1)"
    and "JobEvents p cl sched w1 = (Ok (), rest, w2)"
  shows "run p cl (pre @ sched) w =
           (case WgWait p rest w2 of
              (Ok u, rest', w5) \<Rightarrow> (Ok (), Cleanup p cl w5)
            | (r, rest', w5) \<Rightarrow> (r, w5))"
proof -
  from run_waiting [OF assms(1,2)] obtain claim wa wb wc where s:
    "BuildConfigFromFlags cl = None" "NewForConfig cl = None"
    "CreateOrGetPVC p cl w = (Ok claim, wa)" "WatchJob p cl wa = (Ok (), wb)"
    "CreateJob p cl wb = (Ok (), wc)" "JobEvents p cl pre wc = (Blocked, [], w1)"
    by blast
  from JobEvents_append [OF s(6)] assms(3)
  have "JobEvents p cl (pre @ sched) wc = (Ok (), rest, w2)" by simp
  with s show ?thesis by (simp add: run_def)
qed

lemma WgWait_zero: "Wg w = 0 \<Longrightarrow> WgWait p sched w = (Ok (), sched, w)"
  by (cases sched) simp_all

lemma background_stops:
  "stops (jobWatcher (snd (background p a w))) = stops (jobWatcher w)"
  by (cases a)
     (auto simp: background_def handlePodEvent_def WatchLogs_open_def WatchLogs_copied_def
        world_defs Let_def split: Object.splits EventType.splits option.splits)

lemma JobEvents_no_job_event:
  assumes "\<forall>event. JobEvent event \<notin> set sched" "0 < stops (jobWatcher w)"
  shows "(fst (JobEvents p cl sched w) = Ok () \<or> fst (JobEvents p cl sched w) = Panic)
    \<and> stops (jobWatcher (snd (snd (JobEvents p cl sched w)))) = stops (jobWatcher w)"
  using assms
proof (induction sched arbitrary: w)
  case Nil
  then show ?case by simp
next
  case (Cons a sched)
  from Cons.prems(1) have "JobEvent event \<noteq> a" for event
    by auto
  then have a: "jobLoopStep p cl a w = background p a w"
    by (cases a) (auto simp: jobLoopStep_def)
  obtain r1 w2 where h: "background p a w = (r1, w2)"
    by (cases "background p a w")
  with background_outcome [of p a w] background_stops [of p a w]
  have r: "r1 = Ok () \<or> r1 = Panic" and s: "stops (jobWatcher w2) = stops (jobWatcher w)"
    by simp_all
  from Cons.prems(1) have n: "\<forall>event. JobEvent event \<notin> set sched" by simp
  from Cons.IH [OF n, of w2] s Cons.prems(2)
  have "(fst (JobEvents p cl sched w2) = Ok () \<or> fst (JobEvents p cl sched w2) = Panic)
    \<and> stops (jobWatcher (snd (snd (JobEvents p cl sched w2)))) = stops (jobWatcher w)"
    by simp
  with a h r s show ?case by (auto simp: JobEvents_Cons)
qed

text \<open>
  C2, amended. A job event of type Modified whose failed-pod count is not greater than 0 and
  whose succeeded-pod count is greater than 0: \<open>handleJobEvent\<close> stops the job subscription
  once, returns no error and changes nothing else. When \<open>JobEvents\<close> is waiting for a job
  event and receives that one, and no further job event is delivered before the channel of
  the subscription is closed, \<open>JobEvents\<close> returns no error, unless another goroutine
  panics first, and the subscription has been stopped exactly once. For the events Added
  and then such a Modified and nothing else, \<open>JobEvents\<close> returns no error and the state is
  the one before but for the stopped subscription: no pod subscription was opened and no
  goroutine spawned. \<open>run\<close> then goes on to the cleanup and returns no error when the counter
  of the WaitGroup is 0, and waits when it is not.
\<close>

theorem succeeded_job_ends_run:
  assumes "Type event = Modified" and "Object event = JobObject name status"
    and "\<not> 0 < sint (Failed status)" and "0 < sint (Succeeded status)"
  shows "handleJobEvent p cl event w = (Ok (), w\<lparr>jobWatcher := Stop (jobWatcher w)\<rparr>)
    \<and> (JobEvents p cl pre w = (Blocked, [], w1) \<longrightarrow>
         JobEvents p cl (pre @ [JobEvent event]) w =
           (Ok (), [], w1\<lparr>jobWatcher := \<lparr>stops = 1, ended = True\<rparr>\<rparr>)
         \<and> JobEvents p cl (pre @ JobEvent event # JobChannelClosed # rest) w =
           (Ok (), rest, w1\<lparr>jobWatcher := \<lparr>stops = 1, ended = True\<rparr>\<rparr>)
         \<and> ((\<forall>event'. JobEvent event' \<notin> set rest) \<longrightarrow>
              (fst (JobEvents p cl (pre @ JobEvent event # rest) w) = Ok ()
               \<or> fst (JobEvents p cl (pre @ JobEvent event # rest) w) = Panic)
              \<and> stops (jobWatcher (snd (snd (JobEvents p cl (pre @ JobEvent event # rest) w)))) = 1))
    \<and> (\<not> closed (jobWatcher w) \<and> Type added = Added \<and> Object added = JobObject name' status' \<longrightarrow>
         JobEvents p cl [JobEvent added, JobEvent event] w =
           (Ok (), [], w\<lparr>jobWatcher := \<lparr>stops = 1, ended = True\<rparr>\<rparr>))
    \<and> (run p cl pre w = (Blocked, w1) \<and> \<not> closed (jobWatcher w1) \<longrightarrow>
         run p cl (pre @ [JobEvent event]) w =
           (if Wg w1 = 0
            then (Ok (), Cleanup p cl (w1\<lparr>jobWatcher := \<lparr>stops = 1, ended = True\<rparr>\<rparr>))
            else (Blocked, w1\<lparr>jobWatcher := \<lparr>stops = 1, ended = True\<rparr>\<rparr>)))"
proof -
  note h = handleJobEvent_succeeded [OF assms]
  have step: "JobEvents p cl (JobEvent event # rest) w1 =
      JobEvents p cl rest (w1\<lparr>jobWatcher := \<lparr>stops = 1, ended = False\<rparr>\<rparr>)"
    if "\<not> closed (jobWatcher w1)" for w1 rest
    using that open_Watcher [OF that] h [of p cl w1]
    by (simp add: JobEvents_Cons jobLoopStep_def Stop_def closed_def)
  have last: "JobEvents p cl [JobEvent event] w1 =
      (Ok (), [], w1\<lparr>jobWatcher := \<lparr>stops = 1, ended = True\<rparr>\<rparr>)"
    if "\<not> closed (jobWatcher w1)" for w1
    using step [OF that, of "[]"] by simp
  have chan: "JobEvents p cl (JobEvent event # JobChannelClosed # rest) w1 =
      (Ok (), rest, w1\<lparr>jobWatcher := \<lparr>stops = 1, ended = True\<rparr>\<rparr>)"
    if "\<not> closed (jobWatcher w1)" for w1
    using step [OF that, of "JobChannelClosed # rest"]
    by (simp add: JobEvents_Cons jobLoopStep_def background_def JobEvents_ended)
  have quiet: "(fst (JobEvents p cl (JobEvent event # rest) w1) = Ok ()
               \<or> fst (JobEvents p cl (JobEvent event # rest) w1) = Panic)
      \<and> stops (jobWatcher (snd (snd (JobEvents p cl (JobEvent event # rest) w1)))) = 1"
    if "\<not> closed (jobWatcher w1)" "\<forall>event'. JobEvent event' \<notin> set rest" for w1
    using step [OF that(1), of rest]
      JobEvents_no_job_event [OF that(2), of "w1\<lparr>jobWatcher := \<lparr>stops = 1, ended = False\<rparr>\<rparr>" p cl]
    by simp
  have a: "JobEvents p cl (pre @ [JobEvent event]) w =
           (Ok (), [], w1\<lparr>jobWatcher := \<lparr>stops = 1, ended = True\<rparr>\<rparr>)
         \<and> JobEvents p cl (pre @ JobEvent event # JobChannelClosed # rest) w =
           (Ok (), rest, w1\<lparr>jobWatcher := \<lparr>stops = 1, ended = True\<rparr>\<rparr>)
         \<and> ((\<forall>event'. JobEvent event' \<notin> set rest) \<longrightarrow>
              (fst (JobEvents p cl (pre @ JobEvent event # rest) w) = Ok ()
               \<or> fst (JobEvents p cl (pre @ JobEvent event # rest) w) = Panic)
              \<and> stops (jobWatcher (snd (snd (JobEvents p cl (pre @ JobEvent event # rest) w)))) = 1)"
    if b: "JobEvents p cl pre w = (Blocked, [], w1)"
  proof -
    from JobEvents_Blocked [OF b] have o: "\<not> closed (jobWatcher w1)" by simp
    show ?thesis
      using JobEvents_append [OF b] last [OF o] chan [OF o] quiet [OF o] by simp
  qed
  have b: "JobEvents p cl [JobEvent added, JobEvent event] w =
           (Ok (), [], w\<lparr>jobWatcher := \<lparr>stops = 1, ended = True\<rparr>\<rparr>)"
    if "\<not> closed (jobWatcher w)" "Type added = Added" "Object added = JobObject name' status'"
    using that(1) handleJobEvent_Added [OF that(2,3), of p cl w] last [OF that(1)]
    by (simp add: JobEvents_Cons [of p cl "JobEvent added"] jobLoopStep_def closed_def)
  have c: "run p cl (pre @ [JobEvent event]) w =
           (if Wg w1 = 0
            then (Ok (), Cleanup p cl (w1\<lparr>jobWatcher := \<lparr>stops = 1, ended = True\<rparr>\<rparr>))
            else (Blocked, w1\<lparr>jobWatcher := \<lparr>stops = 1, ended = True\<rparr>\<rparr>))"
    if "run p cl pre w = (Blocked, w1)" "\<not> closed (jobWatcher w1)"
    using run_continues_Ok [OF that last [OF that(2)]] by simp
  from h a b c show ?thesis by blast
qed

theorem succeeded_job_ends_run_witness:
  "fst (run exPlugin exCluster
     [JobEvent (exJobEvent Added 0 0), JobEvent (exJobEvent Modified 0 1)] initWorld) = Ok ()
   \<and> stops (jobWatcher (snd (run exPlugin exCluster
     [JobEvent (exJobEvent Added 0 0), JobEvent (exJobEvent Modified 0 1)] initWorld))) = 1
   \<and> podWatchers (snd (run exPlugin exCluster
     [JobEvent (exJobEvent Added 0 0), JobEvent (exJobEvent Modified 0 1)] initWorld)) = []
   \<and> podTasks (snd (run exPlugin exCluster
     [JobEvent (exJobEvent Added 0 0), JobEvent (exJobEvent Modified 0 1)] initWorld)) = []
   \<and> JobEvents exPlugin exCluster
     [JobEvent (exJobEvent Added 0 0), JobEvent (exJobEvent Modified 0 1)] watchingWorld =
       (Ok (), [], watchingWorld\<lparr>jobWatcher := \<lparr>stops = 1, ended = True\<rparr>\<rparr>)
   \<and> fst (run exPlugin exCluster
     [JobEvent (exJobEvent Modified 0 0), JobEvent (exJobEvent Modified 0 1)] initWorld) = Blocked
   \<and> stops (jobWatcher (snd (snd (JobEvents exPlugin exCluster
     [JobEvent (exJobEvent Modified 0 0), JobEvent (exJobEvent Modified 0 1),
      PodEvent 0 (exPodEvent Modified), StreamReturns 0 None, CopyReturns 0 None]
     watchingWorld)))) = 1"
proof -
  let ?pre = "[JobEvent (exJobEvent Added 0 0)]"
  let ?w1 = "snd (run exPlugin exCluster ?pre initWorld)"
  let ?pre' = "[JobEvent (exJobEvent Modified 0 0)]"
  let ?w2 = "snd (run exPlugin exCluster ?pre' initWorld)"
  let ?w3 = "snd (snd (JobEvents exPlugin exCluster ?pre' watchingWorld))"
  let ?rest = "[PodEvent 0 (exPodEvent Modified), StreamReturns 0 None, CopyReturns 0 None]"
  have h1: "Type (exJobEvent Modified 0 1) = Modified"
    and h2: "Object (exJobEvent Modified 0 1) =
               JobObject ''job-1'' \<lparr>Active = 0, Succeeded = 1, Failed = 0\<rparr>"
    and h3: "\<not> 0 < sint (Failed \<lparr>Active = 0, Succeeded = 1, Failed = (0 :: int32)\<rparr>)"
    and h4: "0 < sint (Succeeded \<lparr>Active = 0, Succeeded = (1 :: int32), Failed = 0\<rparr>)"
    by (simp_all add: exJobEvent_def)
  have e: "fst (run exPlugin exCluster ?pre initWorld) = Blocked \<and> \<not> closed (jobWatcher ?w1)
      \<and> Wg ?w1 = 0 \<and> podWatchers ?w1 = [] \<and> podTasks ?w1 = []"
    by (simp add: run_defs world_defs ex_defs jobLoopStep_def JobEvents_Cons Let_def)
  then have h5: "run exPlugin exCluster ?pre initWorld = (Blocked, ?w1)
      \<and> \<not> closed (jobWatcher ?w1)"
    by (simp add: prod_eq_iff)
  have e': "fst (run exPlugin exCluster ?pre' initWorld) = Blocked \<and> \<not> closed (jobWatcher ?w2)
      \<and> Wg ?w2 = 1"
    by (simp add: run_defs world_defs ex_defs jobLoopStep_def JobEvents_Cons Let_def)
  then have h5': "run exPlugin exCluster ?pre' initWorld = (Blocked, ?w2)
      \<and> \<not> closed (jobWatcher ?w2)"
    by (simp add: prod_eq_iff)
  have h6: "\<not> closed (jobWatcher watchingWorld) \<and> Type (exJobEvent Added 0 0) = Added
      \<and> Object (exJobEvent Added 0 0) = JobObject ''job-1'' \<lparr>Active = 0, Succeeded = 0, Failed = 0\<rparr>"
    by (simp add: watchingWorld_def world_defs ex_defs)
  have "fst (JobEvents exPlugin exCluster ?pre' watchingWorld) = Blocked
      \<and> fst (snd (JobEvents exPlugin exCluster ?pre' watchingWorld)) = []"
    by (simp add: run_defs world_defs ex_defs watchingWorld_def jobLoopStep_def JobEvents_Cons Let_def)
  then have h7: "JobEvents exPlugin exCluster ?pre' watchingWorld = (Blocked, [], ?w3)"
    by (simp add: prod_eq_iff)
  have h8: "\<forall>event'. JobEvent event' \<notin> set ?rest"
    by simp
  note t = succeeded_job_ends_run [OF h1 h2 h3 h4, where p = exPlugin and cl = exCluster]
  from t [where w = initWorld and ?w1.0 = ?w1 and pre = ?pre,
      THEN conjunct2, THEN conjunct2, THEN conjunct2, THEN mp, OF h5] e
  have a: "fst (run exPlugin exCluster (?pre @ [JobEvent (exJobEvent Modified 0 1)]) initWorld) = Ok ()
    \<and> stops (jobWatcher (snd (run exPlugin exCluster
         (?pre @ [JobEvent (exJobEvent Modified 0 1)]) initWorld))) = 1
    \<and> podWatchers (snd (run exPlugin exCluster
         (?pre @ [JobEvent (exJobEvent Modified 0 1)]) initWorld)) = []
    \<and> podTasks (snd (run exPlugin exCluster
         (?pre @ [JobEvent (exJobEvent Modified 0 1)]) initWorld)) = []"
    by (simp add: Cleanup_eq)
  note b = t [where w = watchingWorld and added = "exJobEvent Added 0 0",
      THEN conjunct2, THEN conjunct2, THEN conjunct1, THEN mp, OF h6]
  from t [where w = initWorld and ?w1.0 = ?w2 and pre = ?pre',
      THEN conjunct2, THEN conjunct2, THEN conjunct2, THEN mp, OF h5'] e'
  have c: "fst (run exPlugin exCluster (?pre' @ [JobEvent (exJobEvent Modified 0 1)]) initWorld) =
      Blocked"
    by simp
  note d = t [where w = watchingWorld and ?w1.0 = ?w3 and pre = ?pre' and rest = ?rest,
      THEN conjunct2, THEN conjunct1, THEN mp, OF h7, THEN conjunct2, THEN conjunct2, THEN mp,
      OF h8, THEN conjunct2]
  from a b c d show ?thesis by simp
qed

text \<open>
  The claim is false in three places. An event whose succeeded-pod count and failed-pod
  count are both 1 ends the run with the failure error. A failed event that was already on
  its way when the subscription was stopped is still handled: the run ends with the failure
  error and the subscription is stopped twice. When a \<open>PodEvents\<close> goroutine was spawned and
  no log streamer has ended, \<open>run\<close> does not return after the job has succeeded.
\<close>

theorem succeeded_and_failed_counterexample:
  "Type (exJobEvent Modified 1 1) = Modified
   \<and> Object (exJobEvent Modified 1 1) =
       JobObject ''job-1'' \<lparr>Active = 0, Succeeded = 1, Failed = 1\<rparr>
   \<and> 0 < sint (Succeeded \<lparr>Active = 0, Succeeded = (1 :: int32), Failed = 1\<rparr>)
   \<and> fst (JobEvents exPlugin exCluster
        [JobEvent (exJobEvent Added 0 0), JobEvent (exJobEvent Modified 1 1)] watchingWorld) =
       Err ''there are [ 1 ] failed pods''
   \<and> fst (run exPlugin exCluster
        [JobEvent (exJobEvent Added 0 0), JobEvent (exJobEvent Modified 1 1)] initWorld) =
       Err ''there are [ 1 ] failed pods''
   \<and> fst (JobEvents exPlugin exCluster
        [JobEvent (exJobEvent Modified 0 1), JobEvent (exJobEvent Modified 1 0)] watchingWorld) =
       Err ''there are [ 1 ] failed pods''
   \<and> stops (jobWatcher (snd (snd (JobEvents exPlugin exCluster
        [JobEvent (exJobEvent Modified 0 1), JobEvent (exJobEvent Modified 1 0)]
        watchingWorld)))) = 2
   \<and> fst (run exPlugin exCluster
        [JobEvent (exJobEvent Modified 0 0), JobEvent (exJobEvent Modified 0 1)] initWorld) =
       Blocked"
  by (simp add: run_defs world_defs ex_defs watchingWorld_def jobLoopStep_def JobEvents_Cons Let_def
        failedPodsError_def Sprintf_d_def digits.simps)

section \<open>Properties of the failures of the pod and log subsystems\<close>

lemma WatchPod_failure:
  assumes "Pods_Watch cl (length (podWatchers w)) = Some e"
  shows "WatchPod p cl w =
    (Err e, w\<lparr>calls := calls w @ [Call_Pods_Watch (Namespace p)
                   \<lparr>Watch = False, optLabelSelector = labelSelectorString p\<rparr>],
              logged := logged w @ [(ErrorLevel, ''could not watch pod. err: '' @ e)],
              watcherStatusMap := (watcherStatusMap w)(PodWatcherStatusKey := False)\<rparr>)"
  using assms by (simp add: WatchPod_def world_defs Let_def)

lemma handleJobEvent_watch_failure:
  assumes "Type event = Modified" "Object event = JobObject name status"
    "\<not> 0 < sint (Failed status)" "\<not> 0 < sint (Succeeded status)"
    "\<not> watchingStatus PodWatcherStatusKey w"
    "Pods_Watch cl (length (podWatchers w)) = Some e"
  shows "handleJobEvent p cl event w =
    (Err e, w\<lparr>calls := calls w @ [Call_Pods_Watch (Namespace p)
                   \<lparr>Watch = False, optLabelSelector = labelSelectorString p\<rparr>],
              logged := logged w @ [(ErrorLevel, ''could not watch pod. err: '' @ e),
                                    (ErrorLevel, ''could not watch pod'')],
              watcherStatusMap := (watcherStatusMap w)(PodWatcherStatusKey := False)\<rparr>)"
  using assms(1-5) by (simp add: handleJobEvent_def WatchPod_failure [OF assms(6)] logf_def)

lemma stream_open_failure:
  assumes "i < length (logTasks w)" "ltPhase (logTasks w ! i) = Spawned"
  shows "background p (StreamReturns i (Some e)) w =
    (Ok (), w\<lparr>calls := calls w @
                 [Call_Pods_GetLogs (Namespace p) (ltPodName (logTasks w ! i)) True],
              watcherStatusMap := (watcherStatusMap w)(LogWatcherStatusKey := False),
              logTasks := (logTasks w)[i := (logTasks w ! i)\<lparr>ltPhase := Finished\<rparr>]\<rparr>)"
  using assms by (simp add: background_def WatchLogs_open_def world_defs Let_def)

lemma handleJobEvent_Err:
  assumes "handleJobEvent p cl event w = (Err e, w')"
  shows "(\<exists>failed. 0 < sint failed \<and> e = failedPodsError failed) \<or> (\<exists>k. Pods_Watch cl k = Some e)"
  using assms
  by (auto simp: handleJobEvent_def WatchPod_def Let_def
        split: Object.splits EventType.splits if_splits option.splits)

lemma jobLoopStep_Err:
  assumes "jobLoopStep p cl a w = (Err e, w')"
  shows "(\<exists>failed. 0 < sint failed \<and> e = failedPodsError failed) \<or> (\<exists>k. Pods_Watch cl k = Some e)"
proof (cases a)
  case (JobEvent event)
  with assms show ?thesis by (auto simp: jobLoopStep_def dest: handleJobEvent_Err)
qed (use assms background_outcome [of p a w] in \<open>auto simp: jobLoopStep_def\<close>)

lemma JobEvents_Err:
  "JobEvents p cl sched w = (Err e, rest, w') \<Longrightarrow>
     (\<exists>failed. 0 < sint failed \<and> e = failedPodsError failed) \<or> (\<exists>k. Pods_Watch cl k = Some e)"
proof (induction sched arbitrary: w)
  case Nil
  then show ?case by (simp split: if_splits)
next
  case (Cons a sched)
  obtain r1 w2 where h: "jobLoopStep p cl a w = (r1, w2)"
    by (cases "jobLoopStep p cl a w")
  show ?case
  proof (cases r1)
    case (Ok u)
    with Cons.prems h have "JobEvents p cl sched w2 = (Err e, rest, w')"
      by (simp add: JobEvents_Cons split: if_splits)
    then show ?thesis by (rule Cons.IH)
  next
    case (Err e')
    with Cons.prems h have "e' = e" by (simp add: JobEvents_Cons split: if_splits)
    with Err h show ?thesis by (auto dest: jobLoopStep_Err)
  qed (use Cons.prems h in \<open>simp_all add: JobEvents_Cons split: if_splits\<close>)
qed

text \<open>
  C3, amended. When the pod subscription cannot be opened, \<open>handleJobEvent\<close> logs the failure
  (two lines at error level), clears the pod flag, spawns nothing, and returns the error;
  \<open>JobEvents\<close> and \<open>run\<close> return it as the error of the run. When the log stream of a spawned
  log streamer cannot be opened, the streamer clears the log flag and returns; it logs
  nothing (its message is at debug level), and the state it leaves does not depend on the
  error. An error that \<open>JobEvents\<close> returns is the failed-pods error or an error of the
  opening of a pod subscription.
\<close>

theorem subsystem_failures:
  "(Type event = Modified \<and> Object event = JobObject name status
      \<and> \<not> 0 < sint (Failed status) \<and> \<not> 0 < sint (Succeeded status)
      \<and> \<not> watchingStatus PodWatcherStatusKey w
      \<and> Pods_Watch cl (length (podWatchers w)) = Some e \<longrightarrow>
      handleJobEvent p cl event w =
        (Err e, w\<lparr>calls := calls w @ [Call_Pods_Watch (Namespace p)
                       \<lparr>Watch = False, optLabelSelector = labelSelectorString p\<rparr>],
                  logged := logged w @ [(ErrorLevel, ''could not watch pod. err: '' @ e),
                                        (ErrorLevel, ''could not watch pod'')],
                  watcherStatusMap := (watcherStatusMap w)(PodWatcherStatusKey := False)\<rparr>)
      \<and> (\<not> closed (jobWatcher w) \<longrightarrow>
            JobEvents p cl (JobEvent event # rest) w =
              (Err e, rest, snd (handleJobEvent p cl event w)))
      \<and> (run p cl pre w0 = (Blocked, w) \<and> \<not> closed (jobWatcher w) \<longrightarrow>
            fst (run p cl (pre @ JobEvent event # rest) w0) = Err e))
   \<and> (i < length (logTasks w) \<and> ltPhase (logTasks w ! i) = Spawned \<longrightarrow>
        background p (StreamReturns i (Some e)) w =
          (Ok (), w\<lparr>calls := calls w @
                       [Call_Pods_GetLogs (Namespace p) (ltPodName (logTasks w ! i)) True],
                    watcherStatusMap := (watcherStatusMap w)(LogWatcherStatusKey := False),
                    logTasks := (logTasks w)[i := (logTasks w ! i)\<lparr>ltPhase := Finished\<rparr>]\<rparr>))
   \<and> (JobEvents p cl sched w = (Err e, rest, w') \<longrightarrow>
        (\<exists>failed. 0 < sint failed \<and> e = failedPodsError failed)
        \<or> (\<exists>k. Pods_Watch cl k = Some e))"
proof -
  have a: "handleJobEvent p cl event w =
        (Err e, w\<lparr>calls := calls w @ [Call_Pods_Watch (Namespace p)
                       \<lparr>Watch = False, optLabelSelector = labelSelectorString p\<rparr>],
                  logged := logged w @ [(ErrorLevel, ''could not watch pod. err: '' @ e),
                                        (ErrorLevel, ''could not watch pod'')],
                  watcherStatusMap := (watcherStatusMap w)(PodWatcherStatusKey := False)\<rparr>)
      \<and> (\<not> closed (jobWatcher w) \<longrightarrow>
            JobEvents p cl (JobEvent event # rest) w =
              (Err e, rest, snd (handleJobEvent p cl event w)))
      \<and> (run p cl pre w0 = (Blocked, w) \<and> \<not> closed (jobWatcher w) \<longrightarrow>
            fst (run p cl (pre @ JobEvent event # rest) w0) = Err e)"
    if h: "Type event = Modified" "Object event = JobObject name status"
      "\<not> 0 < sint (Failed status)" "\<not> 0 < sint (Succeeded status)"
      "\<not> watchingStatus PodWatcherStatusKey w"
      "Pods_Watch cl (length (podWatchers w)) = Some e"
  proof -
    note f = handleJobEvent_watch_failure [OF h, of p]
    have j: "JobEvents p cl (JobEvent event # rest) w =
              (Err e, rest, snd (handleJobEvent p cl event w))"
      if "\<not> closed (jobWatcher w)"
      using that f by (simp add: JobEvents_Cons jobLoopStep_def closed_def)
    have r: "fst (run p cl (pre @ JobEvent event # rest) w0) = Err e"
      if "run p cl pre w0 = (Blocked, w)" "\<not> closed (jobWatcher w)"
      using run_continues [OF that j [OF that(2)]] by simp
    from f j r show ?thesis by blast
  qed
  from a stream_open_failure [of i w p e] JobEvents_Err [of p cl sched w e rest w']
  show ?thesis by blast
qed

theorem subsystem_failures_witness:
  "fst (run exPlugin (exCluster\<lparr>Pods_Watch := (\<lambda>k. Some ''forbidden'')\<rparr>)
          [JobEvent (exJobEvent Added 0 0), JobEvent (exJobEvent Modified 0 0)] initWorld) =
     Err ''forbidden''
   \<and> fst (background exPlugin (StreamReturns 0 (Some ''container creating''))
          (snd (snd (JobEvents exPlugin exCluster
             [JobEvent (exJobEvent Modified 0 0), PodEvent 0 (exPodEvent Modified)]
             watchingWorld)))) = Ok ()
   \<and> \<not> watchingStatus LogWatcherStatusKey
        (snd (background exPlugin (StreamReturns 0 (Some ''container creating''))
          (snd (snd (JobEvents exPlugin exCluster
             [JobEvent (exJobEvent Modified 0 0), PodEvent 0 (exPodEvent Modified)]
             watchingWorld)))))
   \<and> logTasks (snd (background exPlugin (StreamReturns 0 (Some ''container creating''))
          (snd (snd (JobEvents exPlugin exCluster
             [JobEvent (exJobEvent Modified 0 0), PodEvent 0 (exPodEvent Modified)]
             watchingWorld))))) = [\<lparr>ltPodName = ''pod-1'', ltPhase = Finished\<rparr>]
   \<and> ((\<exists>failed. 0 < sint failed \<and> ''forbidden'' = failedPodsError failed)
        \<or> (\<exists>k. Pods_Watch (exCluster\<lparr>Pods_Watch := (\<lambda>k. Some ''forbidden'')\<rparr>) k =
                 Some ''forbidden''))"
proof -
  let ?cl = "exCluster\<lparr>Pods_Watch := (\<lambda>k. Some ''forbidden'')\<rparr>"
  let ?pre = "[JobEvent (exJobEvent Added 0 0)]"
  let ?w = "snd (run exPlugin ?cl ?pre initWorld)"
  let ?ws = "snd (snd (JobEvents exPlugin exCluster
             [JobEvent (exJobEvent Modified 0 0), PodEvent 0 (exPodEvent Modified)]
             watchingWorld))"
  have e: "fst (run exPlugin ?cl ?pre initWorld) = Blocked \<and> \<not> closed (jobWatcher ?w)
      \<and> \<not> watchingStatus PodWatcherStatusKey ?w \<and> podWatchers ?w = []"
    by (simp add: run_defs world_defs ex_defs jobLoopStep_def JobEvents_Cons Let_def)
  then have h: "Type (exJobEvent Modified 0 0) = Modified
      \<and> Object (exJobEvent Modified 0 0) =
          JobObject ''job-1'' \<lparr>Active = 0, Succeeded = 0, Failed = 0\<rparr>
      \<and> \<not> 0 < sint (Failed \<lparr>Active = 0, Succeeded = 0, Failed = (0 :: int32)\<rparr>)
      \<and> \<not> 0 < sint (Succeeded \<lparr>Active = 0, Succeeded = (0 :: int32), Failed = 0\<rparr>)
      \<and> \<not> watchingStatus PodWatcherStatusKey ?w
      \<and> Pods_Watch ?cl (length (podWatchers ?w)) = Some ''forbidden''"
    by (simp add: exJobEvent_def)
  from e have r: "run exPlugin ?cl ?pre initWorld = (Blocked, ?w) \<and> \<not> closed (jobWatcher ?w)"
    by (simp add: prod_eq_iff)
  have s: "0 < length (logTasks ?ws) \<and> ltPhase (logTasks ?ws ! 0) = Spawned"
    and l: "logTasks ?ws = [\<lparr>ltPodName = ''pod-1'', ltPhase = Spawned\<rparr>]"
    by (simp_all add: run_defs world_defs ex_defs watchingWorld_def jobLoopStep_def JobEvents_Cons
          Let_def)
  from subsystem_failures [where p = exPlugin and cl = ?cl and w = ?w and pre = ?pre
      and ?w0.0 = initWorld and rest = "[]" and event = "exJobEvent Modified 0 0"
      and e = "''forbidden''", THEN conjunct1, THEN mp, OF h,
      THEN conjunct2, THEN conjunct2, THEN mp, OF r]
  have a: "fst (run exPlugin ?cl (?pre @ [JobEvent (exJobEvent Modified 0 0)]) initWorld) =
     Err ''forbidden''" .
  from subsystem_failures [where p = exPlugin and w = ?ws and i = 0
      and e = "''container creating''", THEN conjunct2, THEN conjunct1, THEN mp, OF s] l
  have b: "fst (background exPlugin (StreamReturns 0 (Some ''container creating'')) ?ws) = Ok ()
    \<and> \<not> watchingStatus LogWatcherStatusKey
        (snd (background exPlugin (StreamReturns 0 (Some ''container creating'')) ?ws))
    \<and> logTasks (snd (background exPlugin (StreamReturns 0 (Some ''container creating'')) ?ws)) =
        [\<lparr>ltPodName = ''pod-1'', ltPhase = Finished\<rparr>]"
    by (simp add: watchingStatus_def)
  have "fst (JobEvents exPlugin ?cl [JobEvent (exJobEvent Modified 0 0)] watchingWorld) =
      Err ''forbidden''"
    by (simp add: run_defs world_defs ex_defs watchingWorld_def jobLoopStep_def JobEvents_Cons
          Let_def)
  then have j: "JobEvents exPlugin ?cl [JobEvent (exJobEvent Modified 0 0)] watchingWorld =
      (Err ''forbidden'',
       fst (snd (JobEvents exPlugin ?cl [JobEvent (exJobEvent Modified 0 0)] watchingWorld)),
       snd (snd (JobEvents exPlugin ?cl [JobEvent (exJobEvent Modified 0 0)] watchingWorld)))"
    by (simp add: prod_eq_iff)
  note c = subsystem_failures [where p = exPlugin and cl = ?cl and w = watchingWorld
      and sched = "[JobEvent (exJobEvent Modified 0 0)]" and e = "''forbidden''",
      THEN conjunct2, THEN conjunct2, THEN mp, OF j]
  from a b c show ?thesis by simp
qed

text \<open>
  The claim is false for the pod subscription: when it cannot be opened, at the first
  Modified event of a job with no failed and no succeeded pod, the run ends with the error
  of the opening.
\<close>

theorem pod_watch_failure_counterexample:
  "fst (JobEvents exPlugin (exCluster\<lparr>Pods_Watch := (\<lambda>k. Some ''forbidden'')\<rparr>)
          [JobEvent (exJobEvent Modified 0 0)] watchingWorld) = Err ''forbidden''
   \<and> fst (run exPlugin (exCluster\<lparr>Pods_Watch := (\<lambda>k. Some ''forbidden'')\<rparr>)
          [JobEvent (exJobEvent Modified 0 0)] initWorld) = Err ''forbidden''
   \<and> logged (snd (run exPlugin (exCluster\<lparr>Pods_Watch := (\<lambda>k. Some ''forbidden'')\<rparr>)
          [JobEvent (exJobEvent Modified 0 0)] initWorld)) =
       [(WarnLevel, ''error while getting the PVC: [ repository-0-workspace ], error not found;''),
        (ErrorLevel, ''could not watch pod. err: forbidden''),
        (ErrorLevel, ''could not watch pod''),
        (ErrorLevel, ''error encountered: forbidden'')]"
  by (simp add: run_defs world_defs ex_defs watchingWorld_def jobLoopStep_def JobEvents_Cons Let_def)

section \<open>Properties of the WaitGroup\<close>

lemma handleJobEvent_Wg:
  "Wg (snd (handleJobEvent p cl event w)) =
     Wg w + int (length (podTasks (snd (handleJobEvent p cl event w))) - length (podTasks w))"
  by (auto simp: handleJobEvent_def WatchPod_def world_defs Let_def
        split: Object.splits EventType.splits option.splits)

lemma handleJobEvent_podTasks:
  "podTasks (snd (handleJobEvent p cl event w)) = podTasks w
   \<or> (\<exists>k. podTasks (snd (handleJobEvent p cl event w)) = podTasks w @ [k])"
  by (auto simp: handleJobEvent_def WatchPod_def world_defs Let_def
        split: Object.splits EventType.splits option.splits)

lemma handlePodEvent_Wg: "Wg (snd (handlePodEvent p i event w)) = Wg w"
  by (auto simp: handlePodEvent_def world_defs split: Object.splits EventType.splits)

lemma copy_returns_Wg:
  assumes "i < length (logTasks w)" "ltPhase (logTasks w ! i) = Streaming" "0 < Wg w"
  shows "fst (background p (CopyReturns i err) w) = Ok ()"
    and "Wg (snd (background p (CopyReturns i err) w)) = Wg w - 1"
    and "ltPhase (logTasks (snd (background p (CopyReturns i err) w)) ! i) = Finished"
  using assms by (simp_all add: background_def WatchLogs_copied_def world_defs Let_def)

lemma WgWait_Ok: "WgWait p sched w = (Ok u, rest, w') \<Longrightarrow> Wg w' = 0"
proof (induction sched arbitrary: w)
  case Nil
  then show ?case by (simp split: if_splits)
next
  case (Cons a sched)
  obtain r1 w2 where h: "background p a w = (r1, w2)"
    by (cases "background p a w")
  show ?case
  proof (cases "Wg w = 0")
    case True
    with Cons.prems show ?thesis by simp
  next
    case False
    with Cons.prems h have "WgWait p sched w2 = (Ok u, rest, w')"
      by (cases r1) simp_all
    then show ?thesis by (rule Cons.IH)
  qed
qed

lemma run_Ok:
  assumes "run p cl sched w = (Ok u, w')"
  shows "\<exists>w5. Wg w5 = 0 \<and> w' = Cleanup p cl w5"
proof -
  obtain ra wa where a: "CreateOrGetPVC p cl w = (ra, wa)" by (cases "CreateOrGetPVC p cl w")
  obtain rb wb where b: "WatchJob p cl wa = (rb, wb)" by (cases "WatchJob p cl wa")
  obtain rc wc where c: "CreateJob p cl wb = (rc, wc)" by (cases "CreateJob p cl wb")
  obtain rd rest wd where d: "JobEvents p cl sched wc = (rd, rest, wd)"
    by (cases "JobEvents p cl sched wc")
  obtain re rest' we where e: "WgWait p rest wd = (re, rest', we)"
    by (cases "WgWait p rest wd")
  from assms a b c d e have "re = Ok () \<and> w' = Cleanup p cl we"
    by (auto simp: run_def split: option.splits outcome.splits)
  with e WgWait_Ok [of p rest wd "()" rest' we] show ?thesis by auto
qed

text \<open>
  C4, amended. \<open>handleJobEvent\<close> adds to the counter of the WaitGroup the number of
  \<open>PodEvents\<close> goroutines it spawns, none or one; \<open>handlePodEvent\<close>, which spawns the log
  streamers, leaves the counter as it is. A log streamer whose stream was opened takes 1 off
  a counter that is greater than 0 when \<^verbatim>\<open>io.Copy\<close> returns, with an error or without. When
  \<open>run\<close> returns no error, it has gone through the cleanup, in a state in which the counter
  was 0. When \<open>JobEvents\<close> returns an error, \<open>run\<close> logs it and returns it in the state in
  which \<open>JobEvents\<close> ended, whatever the counter: it has not waited and there is no cleanup.
\<close>

theorem completion_counter:
  "Wg (snd (handleJobEvent p cl event w)) =
     Wg w + int (length (podTasks (snd (handleJobEvent p cl event w))) - length (podTasks w))
   \<and> (podTasks (snd (handleJobEvent p cl event w)) = podTasks w
       \<or> (\<exists>k. podTasks (snd (handleJobEvent p cl event w)) = podTasks w @ [k]))
   \<and> Wg (snd (handlePodEvent p i event w)) = Wg w
   \<and> (i < length (logTasks w) \<and> ltPhase (logTasks w ! i) = Streaming \<and> 0 < Wg w \<longrightarrow>
        fst (background p (CopyReturns i err) w) = Ok ()
        \<and> Wg (snd (background p (CopyReturns i err) w)) = Wg w - 1
        \<and> ltPhase (logTasks (snd (background p (CopyReturns i err) w)) ! i) = Finished)
   \<and> (run p cl sched w = (Ok (), w') \<longrightarrow> (\<exists>w5. Wg w5 = 0 \<and> w' = Cleanup p cl w5) \<and> Wg w' = 0)
   \<and> (run p cl pre w = (Blocked, w1) \<and> \<not> closed (jobWatcher w1)
        \<and> JobEvents p cl sched w1 = (Err e, rest, w2) \<longrightarrow>
        run p cl (pre @ sched) w =
          (Err e, w2\<lparr>logged := logged w2 @ [(ErrorLevel, ''error encountered: '' @ e)]\<rparr>))"
proof -
  have a: "(\<exists>w5. Wg w5 = 0 \<and> w' = Cleanup p cl w5) \<and> Wg w' = 0"
    if "run p cl sched w = (Ok (), w')"
    using run_Ok [OF that] by (auto simp: Cleanup_eq)
  have b: "run p cl (pre @ sched) w =
          (Err e, w2\<lparr>logged := logged w2 @ [(ErrorLevel, ''error encountered: '' @ e)]\<rparr>)"
    if "run p cl pre w = (Blocked, w1)" "\<not> closed (jobWatcher w1)"
      "JobEvents p cl sched w1 = (Err e, rest, w2)"
    using run_continues [OF that] by (simp add: logf_def)
  from a b handleJobEvent_Wg [of p cl event w] handleJobEvent_podTasks [of p cl event w]
    handlePodEvent_Wg [of p i event w]
    copy_returns_Wg [of i w p err]
  show ?thesis by blast
qed

theorem completion_counter_witness:
  "Wg (snd (background exPlugin (CopyReturns 0 (Some ''connection reset''))
        (snd (snd (JobEvents exPlugin exCluster
           [JobEvent (exJobEvent Modified 0 0), PodEvent 0 (exPodEvent Modified),
            StreamReturns 0 None] watchingWorld))))) = 0
   \<and> fst (run exPlugin exCluster
        [JobEvent (exJobEvent Modified 0 0), PodEvent 0 (exPodEvent Modified),
         StreamReturns 0 None, JobEvent (exJobEvent Modified 0 1),
         CopyReturns 0 (Some ''connection reset'')] initWorld) = Ok ()
   \<and> Wg (snd (run exPlugin exCluster
        [JobEvent (exJobEvent Modified 0 0), PodEvent 0 (exPodEvent Modified),
         StreamReturns 0 None, JobEvent (exJobEvent Modified 0 1),
         CopyReturns 0 (Some ''connection reset'')] initWorld)) = 0
   \<and> fst (run exPlugin exCluster
        [JobEvent (exJobEvent Modified 0 0), JobEvent (exJobEvent Modified 1 0)] initWorld) =
       Err ''there are [ 1 ] failed pods''
   \<and> Wg (snd (run exPlugin exCluster
        [JobEvent (exJobEvent Modified 0 0), JobEvent (exJobEvent Modified 1 0)] initWorld)) = 1"
proof -
  let ?ws = "snd (snd (JobEvents exPlugin exCluster
           [JobEvent (exJobEvent Modified 0 0), PodEvent 0 (exPodEvent Modified),
            StreamReturns 0 None] watchingWorld))"
  let ?sched = "[JobEvent (exJobEvent Modified 0 0), PodEvent 0 (exPodEvent Modified),
         StreamReturns 0 None, JobEvent (exJobEvent Modified 0 1),
         CopyReturns 0 (Some ''connection reset'')]"
  let ?pre = "[JobEvent (exJobEvent Modified 0 0)]"
  let ?w1 = "snd (run exPlugin exCluster ?pre initWorld)"
  let ?ev = "[JobEvent (exJobEvent Modified 1 0)]"
  let ?w2 = "snd (snd (JobEvents exPlugin exCluster ?ev ?w1))"
  have h: "0 < length (logTasks ?ws) \<and> ltPhase (logTasks ?ws ! 0) = Streaming \<and> 0 < Wg ?ws"
    and w: "Wg ?ws = 1"
    by (simp_all add: run_defs world_defs ex_defs watchingWorld_def jobLoopStep_def JobEvents_Cons
          Let_def)
  have r: "fst (run exPlugin exCluster ?sched initWorld) = Ok ()"
    by (simp add: run_defs world_defs ex_defs jobLoopStep_def JobEvents_Cons JobEvents_ended Let_def)
  then have r': "run exPlugin exCluster ?sched initWorld =
      (Ok (), snd (run exPlugin exCluster ?sched initWorld))"
    by (simp add: prod_eq_iff)
  have e: "fst (run exPlugin exCluster ?pre initWorld) = Blocked \<and> \<not> closed (jobWatcher ?w1)
      \<and> Wg ?w1 = 1"
    by (simp add: run_defs world_defs ex_defs jobLoopStep_def JobEvents_Cons Let_def)
  have j: "fst (JobEvents exPlugin exCluster ?ev ?w1) = Err ''there are [ 1 ] failed pods''
      \<and> fst (snd (JobEvents exPlugin exCluster ?ev ?w1)) = [] \<and> Wg ?w2 = 1"
    by (simp add: run_defs world_defs ex_defs jobLoopStep_def JobEvents_Cons Let_def
          failedPodsError_def Sprintf_d_def digits.simps)
  from e j have h': "run exPlugin exCluster ?pre initWorld = (Blocked, ?w1)
      \<and> \<not> closed (jobWatcher ?w1)
      \<and> JobEvents exPlugin exCluster ?ev ?w1 = (Err ''there are [ 1 ] failed pods'', [], ?w2)"
    by (simp add: prod_eq_iff)
  from completion_counter [where p = exPlugin and cl = exCluster and w = ?ws and i = 0
      and err = "Some ''connection reset''", THEN conjunct2, THEN conjunct2, THEN conjunct2,
      THEN conjunct1, THEN mp, OF h] w
  have a: "Wg (snd (background exPlugin (CopyReturns 0 (Some ''connection reset'')) ?ws)) = 0"
    by simp
  from completion_counter [where p = exPlugin and cl = exCluster and w = initWorld
      and sched = ?sched, THEN conjunct2, THEN conjunct2, THEN conjunct2, THEN conjunct2,
      THEN conjunct1, THEN mp, OF r']
  have b: "Wg (snd (run exPlugin exCluster ?sched initWorld)) = 0"
    by simp
  from completion_counter [where p = exPlugin and cl = exCluster and w = initWorld
      and pre = ?pre and ?w1.0 = ?w1 and sched = ?ev and ?w2.0 = ?w2
      and e = "''there are [ 1 ] failed pods''" and rest = "[]",
      THEN conjunct2, THEN conjunct2, THEN conjunct2, THEN conjunct2, THEN conjunct2,
      THEN mp, OF h'] j
  have c: "fst (run exPlugin exCluster (?pre @ ?ev) initWorld) = Err ''there are [ 1 ] failed pods''
      \<and> Wg (snd (run exPlugin exCluster (?pre @ ?ev) initWorld)) = 1"
    by simp
  from a r b c show ?thesis by simp
qed

text \<open>
  The claim is false in two places. When the job fails after the pod goroutine was spawned,
  \<open>run\<close> returns, and the process exits, with the counter at 1. When a second log streamer is
  spawned after the first has ended, the counter is 0 when its \<^verbatim>\<open>io.Copy\<close> returns: nothing is
  taken off it, and \<^verbatim>\<open>Wg.Done()\<close> panics.
\<close>

theorem completion_counter_counterexample:
  "fst (run exPlugin exCluster
     [JobEvent (exJobEvent Added 0 0), JobEvent (exJobEvent Modified 0 0),
      JobEvent (exJobEvent Modified 1 0)] initWorld) =
     Err ''there are [ 1 ] failed pods''
   \<and> Wg (snd (run exPlugin exCluster
     [JobEvent (exJobEvent Added 0 0), JobEvent (exJobEvent Modified 0 0),
      JobEvent (exJobEvent Modified 1 0)] initWorld)) = 1
   \<and> podTasks (snd (run exPlugin exCluster
     [JobEvent (exJobEvent Added 0 0), JobEvent (exJobEvent Modified 0 0),
      JobEvent (exJobEvent Modified 1 0)] initWorld)) = [0]
   \<and> fst (JobEvents exPlugin exCluster
     [JobEvent (exJobEvent Modified 0 0),
      PodEvent 0 (exPodEvent Modified), StreamReturns 0 None, CopyReturns 0 None,
      PodEvent 0 (exPodEvent Modified), StreamReturns 1 None, CopyReturns 1 None]
     watchingWorld) = Panic
   \<and> Wg (snd (snd (JobEvents exPlugin exCluster
     [JobEvent (exJobEvent Modified 0 0),
      PodEvent 0 (exPodEvent Modified), StreamReturns 0 None, CopyReturns 0 None,
      PodEvent 0 (exPodEvent Modified), StreamReturns 1 None]
     watchingWorld))) = 0
   \<and> logTasks (snd (snd (JobEvents exPlugin exCluster
     [JobEvent (exJobEvent Modified 0 0),
      PodEvent 0 (exPodEvent Modified), StreamReturns 0 None, CopyReturns 0 None,
      PodEvent 0 (exPodEvent Modified), StreamReturns 1 None]
     watchingWorld))) =
     [\<lparr>ltPodName = ''pod-1'', ltPhase = Finished\<rparr>, \<lparr>ltPodName = ''pod-1'', ltPhase = Streaming\<rparr>]"
  by (simp add: run_defs world_defs ex_defs watchingWorld_def jobLoopStep_def JobEvents_Cons Let_def
        failedPodsError_def Sprintf_d_def digits.simps)

section \<open>Properties of the pod watcher\<close>

lemma handleJobEvent_spawned:
  "spawnedAtMostOnce w0 w \<Longrightarrow> spawnedAtMostOnce w0 (snd (handleJobEvent p cl event w))"
  by (auto simp: spawnedAtMostOnce_def handleJobEvent_def WatchPod_def world_defs Let_def
        split: Object.splits EventType.splits option.splits)

lemma background_spawned:
  assumes "noPodDeleted a" "spawnedAtMostOnce w0 w"
  shows "spawnedAtMostOnce w0 (snd (background p a w))"
  using assms
  by (cases a)
     (auto simp: noPodDeleted_def spawnedAtMostOnce_def background_def handlePodEvent_def
        WatchLogs_open_def WatchLogs_copied_def world_defs Let_def
        split: Object.splits EventType.splits option.splits)

lemma jobLoopStep_spawned:
  "noPodDeleted a \<Longrightarrow> spawnedAtMostOnce w0 w \<Longrightarrow>
     spawnedAtMostOnce w0 (snd (jobLoopStep p cl a w))"
  by (cases a) (simp_all add: jobLoopStep_def handleJobEvent_spawned background_spawned)

lemma JobEvents_spawned:
  "\<forall>a \<in> set sched. noPodDeleted a \<Longrightarrow> spawnedAtMostOnce w0 w \<Longrightarrow>
     spawnedAtMostOnce w0 (snd (snd (JobEvents p cl sched w)))
     \<and> (\<forall>a \<in> set (fst (snd (JobEvents p cl sched w))). noPodDeleted a)"
proof (induction sched arbitrary: w)
  case Nil
  then show ?case by (simp add: spawnedAtMostOnce_def watchingStatus_def)
next
  case (Cons a sched)
  obtain r1 w2 where h: "jobLoopStep p cl a w = (r1, w2)"
    by (cases "jobLoopStep p cl a w")
  from Cons.prems have q: "noPodDeleted a" "\<forall>a \<in> set sched. noPodDeleted a" by simp_all
  from jobLoopStep_spawned [OF q(1) Cons.prems(2), of p cl] h
  have i: "spawnedAtMostOnce w0 w2" by simp
  show ?case
    using Cons.prems h i q Cons.IH [OF q(2) i] by (cases r1) (simp_all add: JobEvents_Cons)
qed

lemma WgWait_spawned:
  "\<forall>a \<in> set sched. noPodDeleted a \<Longrightarrow> spawnedAtMostOnce w0 w \<Longrightarrow>
     spawnedAtMostOnce w0 (snd (snd (WgWait p sched w)))"
proof (induction sched arbitrary: w)
  case Nil
  then show ?case by simp
next
  case (Cons a sched)
  obtain r1 w2 where h: "background p a w = (r1, w2)"
    by (cases "background p a w")
  from Cons.prems have q: "noPodDeleted a" "\<forall>a \<in> set sched. noPodDeleted a" by simp_all
  from background_spawned [OF q(1) Cons.prems(2), of p] h
  have i: "spawnedAtMostOnce w0 w2" by simp
  show ?case
    using Cons.prems h i Cons.IH [OF q(2) i] by (cases r1) simp_all
qed

lemma setup_spawned:
  assumes "spawnedAtMostOnce w0 w"
  shows "spawnedAtMostOnce w0 (snd (CreateOrGetPVC p cl w))"
    and "spawnedAtMostOnce w0 (snd (WatchJob p cl w))"
    and "spawnedAtMostOnce w0 (snd (CreateJob p cl w))"
    and "spawnedAtMostOnce w0 (Cleanup p cl w)"
    and "spawnedAtMostOnce w0 (logf lvl msg w)"
    and "spawnedAtMostOnce w0 (stopJobWatcher w)"
  using assms
  by (auto simp: spawnedAtMostOnce_def CreateOrGetPVC_def WatchJob_def
        CreateJob_def Cleanup_eq world_defs Let_def split: sum.splits option.splits outcome.splits)

lemma run_spawned:
  assumes "\<forall>a \<in> set sched. noPodDeleted a"
  shows "spawnedAtMostOnce w (snd (run p cl sched w))"
proof -
  have i: "spawnedAtMostOnce w w" by (simp add: spawnedAtMostOnce_def)
  obtain ra wa where a: "CreateOrGetPVC p cl w = (ra, wa)" by (cases "CreateOrGetPVC p cl w")
  obtain rb wb where b: "WatchJob p cl wa = (rb, wb)" by (cases "WatchJob p cl wa")
  obtain rc wc where c: "CreateJob p cl wb = (rc, wc)" by (cases "CreateJob p cl wb")
  obtain rd rest wd where d: "JobEvents p cl sched wc = (rd, rest, wd)"
    by (cases "JobEvents p cl sched wc")
  obtain re rest' we where e: "WgWait p rest wd = (re, rest', we)"
    by (cases "WgWait p rest wd")
  from setup_spawned(1) [OF i, of p cl] a have ia: "spawnedAtMostOnce w wa" by simp
  from setup_spawned(2) [OF ia, of p cl] b have ib: "spawnedAtMostOnce w wb" by simp
  from setup_spawned(3) [OF ib, of p cl] c have ic: "spawnedAtMostOnce w wc" by simp
  from JobEvents_spawned [OF assms ic, of p cl] d
  have id: "spawnedAtMostOnce w wd" and q: "\<forall>a \<in> set rest. noPodDeleted a" by simp_all
  from WgWait_spawned [OF q id, of p] e have ie: "spawnedAtMostOnce w we" by simp
  show ?thesis
    using a b c d e i ia ib ic id ie
    by (auto simp: run_def setup_spawned(4,5,6) split: option.splits outcome.splits)
qed

lemma handleJobEvent_running_first:
  assumes "runningModified event" "\<not> watchingStatus PodWatcherStatusKey w"
    "Pods_Watch cl (length (podWatchers w)) = None"
  shows "handleJobEvent p cl event w =
    (Ok (), w\<lparr>calls := calls w @ [Call_Pods_Watch (Namespace p)
                   \<lparr>Watch = False, optLabelSelector = labelSelectorString p\<rparr>],
             podWatchers := podWatchers w @ [newWatcher],
             watcherStatusMap := (watcherStatusMap w)(PodWatcherStatusKey := True),
             Wg := Wg w + 1,
             podTasks := podTasks w @ [length (podWatchers w)]\<rparr>)"
  using assms
  by (auto simp: runningModified_def handleJobEvent_def WatchPod_def world_defs Let_def
        split: Object.splits)

lemma handleJobEvent_running_again:
  assumes "runningModified event" "watchingStatus PodWatcherStatusKey w"
  shows "handleJobEvent p cl event w = (Ok (), w)"
  using assms by (auto simp: runningModified_def handleJobEvent_def split: Object.splits)

lemma handleJobEvent_running_failure:
  assumes "runningModified event" "\<not> watchingStatus PodWatcherStatusKey w"
    "Pods_Watch cl (length (podWatchers w)) = Some e"
  shows "fst (handleJobEvent p cl event w) = Err e"
    and "podTasks (snd (handleJobEvent p cl event w)) = podTasks w"
    and "podWatchers (snd (handleJobEvent p cl event w)) = podWatchers w"
  using assms
  by (auto simp: runningModified_def handleJobEvent_def WatchPod_def world_defs Let_def
        split: Object.splits)

lemma JobEvents_running_watched:
  assumes "\<forall>event \<in> set evs. runningModified event" "watchingStatus PodWatcherStatusKey w"
    "\<not> closed (jobWatcher w)"
  shows "JobEvents p cl (map JobEvent evs) w = (Blocked, [], w)"
  using assms(1)
proof (induction evs)
  case Nil
  with assms(3) show ?case by (simp add: closed_def)
next
  case (Cons event evs)
  with assms(2,3) handleJobEvent_running_again [of event w p cl] show ?case
    by (simp add: JobEvents_Cons jobLoopStep_def closed_def)
qed

lemma handlePodEvent_Deleted:
  assumes "Type event = Deleted" "Object event = PodObject name"
  shows "handlePodEvent p i event w =
    (Ok (), watchingStatusOff PodWatcherStatusKey (stopPodWatcher i w))"
  using assms by (simp add: handlePodEvent_def)

text \<open>
  C5, amended. Take one or more job events of type Modified with neither count greater than
  0, received one after the other while \<open>JobEvents\<close> is waiting and the pod flag is off. When
  the pod subscription can be opened, the first event opens it with one call, sets the pod
  flag, adds 1 to the counter and spawns one \<open>PodEvents\<close> goroutine, and the later events
  change nothing; so, when no pod subscription was active before, exactly one is active
  after each of the events. When it cannot be opened nothing is spawned and \<open>JobEvents\<close>
  returns the error. In a run in which no pod subscription delivers an event of type
  Deleted, whatever the job events and the steps of the other goroutines, at most one pod
  subscription is opened and at most one \<open>PodEvents\<close> goroutine spawned, so that a run that starts with no
  pod subscription has at most one active at the end of any schedule. A pod event of type
  Deleted stops the pod subscription and clears the pod flag.
\<close>

theorem pod_watcher_spawned_once:
  "(evs \<noteq> [] \<and> (\<forall>event \<in> set evs. runningModified event) \<and> \<not> closed (jobWatcher w)
      \<and> \<not> watchingStatus PodWatcherStatusKey w \<longrightarrow>
      (Pods_Watch cl (length (podWatchers w)) = None \<longrightarrow>
         JobEvents p cl (map JobEvent evs) w =
           (Blocked, [],
            w\<lparr>calls := calls w @ [Call_Pods_Watch (Namespace p)
                   \<lparr>Watch = False, optLabelSelector = labelSelectorString p\<rparr>],
              podWatchers := podWatchers w @ [newWatcher],
              watcherStatusMap := (watcherStatusMap w)(PodWatcherStatusKey := True),
              Wg := Wg w + 1,
              podTasks := podTasks w @ [length (podWatchers w)]\<rparr>)
         \<and> (activePodWatchers w = [] \<longrightarrow>
              activePodWatchers (snd (snd (JobEvents p cl (map JobEvent evs) w))) = [newWatcher]))
      \<and> (Pods_Watch cl (length (podWatchers w)) = Some e \<longrightarrow>
           fst (JobEvents p cl (map JobEvent evs) w) = Err e
           \<and> podTasks (snd (snd (JobEvents p cl (map JobEvent evs) w))) = podTasks w
           \<and> podWatchers (snd (snd (JobEvents p cl (map JobEvent evs) w))) = podWatchers w))
   \<and> ((\<forall>a \<in> set sched. noPodDeleted a) \<longrightarrow>
        (podTasks (snd (run p cl sched w)) = podTasks w
         \<or> podTasks (snd (run p cl sched w)) = podTasks w @ [length (podWatchers w)])
        \<and> length (podWatchers (snd (run p cl sched w))) \<le> length (podWatchers w) + 1
        \<and> length (activePodWatchers (snd (run p cl sched w))) \<le> length (podWatchers w) + 1
        \<and> (podTasks (snd (snd (JobEvents p cl sched w))) = podTasks w
            \<or> podTasks (snd (snd (JobEvents p cl sched w))) = podTasks w @ [length (podWatchers w)])
        \<and> length (podWatchers (snd (snd (JobEvents p cl sched w)))) \<le> length (podWatchers w) + 1)
   \<and> (Type event = Deleted \<and> Object event = PodObject name \<longrightarrow>
        handlePodEvent p i event w =
          (Ok (), watchingStatusOff PodWatcherStatusKey (stopPodWatcher i w)))"
proof -
  have a: "(Pods_Watch cl (length (podWatchers w)) = None \<longrightarrow>
         JobEvents p cl (map JobEvent evs) w =
           (Blocked, [],
            w\<lparr>calls := calls w @ [Call_Pods_Watch (Namespace p)
                   \<lparr>Watch = False, optLabelSelector = labelSelectorString p\<rparr>],
              podWatchers := podWatchers w @ [newWatcher],
              watcherStatusMap := (watcherStatusMap w)(PodWatcherStatusKey := True),
              Wg := Wg w + 1,
              podTasks := podTasks w @ [length (podWatchers w)]\<rparr>)
         \<and> (activePodWatchers w = [] \<longrightarrow>
              activePodWatchers (snd (snd (JobEvents p cl (map JobEvent evs) w))) = [newWatcher]))
      \<and> (Pods_Watch cl (length (podWatchers w)) = Some e \<longrightarrow>
           fst (JobEvents p cl (map JobEvent evs) w) = Err e
           \<and> podTasks (snd (snd (JobEvents p cl (map JobEvent evs) w))) = podTasks w
           \<and> podWatchers (snd (snd (JobEvents p cl (map JobEvent evs) w))) = podWatchers w)"
    if h: "evs \<noteq> []" "\<forall>event \<in> set evs. runningModified event" "\<not> closed (jobWatcher w)"
      "\<not> watchingStatus PodWatcherStatusKey w"
  proof -
    from h(1) obtain event rest where evs: "evs = event # rest" by (cases evs) auto
    with h(2) have r: "runningModified event" "\<forall>event \<in> set rest. runningModified event"
      by simp_all
    let ?w' = "w\<lparr>calls := calls w @ [Call_Pods_Watch (Namespace p)
                   \<lparr>Watch = False, optLabelSelector = labelSelectorString p\<rparr>],
              podWatchers := podWatchers w @ [newWatcher],
              watcherStatusMap := (watcherStatusMap w)(PodWatcherStatusKey := True),
              Wg := Wg w + 1,
              podTasks := podTasks w @ [length (podWatchers w)]\<rparr>"
    from h(3) have o: "\<not> ended (jobWatcher w)" by (simp add: closed_def)
    show ?thesis
    proof (cases "Pods_Watch cl (length (podWatchers w))")
      case None
      have "JobEvents p cl (map JobEvent rest) ?w' = (Blocked, [], ?w')"
        using r(2) h(3) by (intro JobEvents_running_watched) (simp_all add: watchingStatus_def)
      with handleJobEvent_running_first [OF r(1) h(4) None, of p] o evs
      have j: "JobEvents p cl (map JobEvent evs) w = (Blocked, [], ?w')"
        by (simp add: JobEvents_Cons jobLoopStep_def)
      moreover have "activePodWatchers ?w' = [newWatcher]" if "activePodWatchers w = []"
        using that by (simp add: activePodWatchers_def newWatcher_def closed_def)
      ultimately show ?thesis using None by simp
    next
      case (Some e')
      from handleJobEvent_running_failure [OF r(1) h(4) Some, of p] o evs Some
      show ?thesis
        by (cases "handleJobEvent p cl event w") (simp add: JobEvents_Cons jobLoopStep_def)
    qed
  qed
  have b: "(podTasks (snd (run p cl sched w)) = podTasks w
         \<or> podTasks (snd (run p cl sched w)) = podTasks w @ [length (podWatchers w)])
        \<and> length (podWatchers (snd (run p cl sched w))) \<le> length (podWatchers w) + 1
        \<and> length (activePodWatchers (snd (run p cl sched w))) \<le> length (podWatchers w) + 1
        \<and> (podTasks (snd (snd (JobEvents p cl sched w))) = podTasks w
            \<or> podTasks (snd (snd (JobEvents p cl sched w))) = podTasks w @ [length (podWatchers w)])
        \<and> length (podWatchers (snd (snd (JobEvents p cl sched w)))) \<le> length (podWatchers w) + 1"
    if q: "\<forall>a \<in> set sched. noPodDeleted a"
  proof -
    have "spawnedAtMostOnce w w" by (simp add: spawnedAtMostOnce_def)
    have "length (activePodWatchers w') \<le> length (podWatchers w')" for w'
      by (simp add: activePodWatchers_def)
    from this [of "snd (run p cl sched w)"]
      JobEvents_spawned [OF q \<open>spawnedAtMostOnce w w\<close>, of p cl] run_spawned [OF q, of w p cl]
    show ?thesis by (auto simp: spawnedAtMostOnce_def)
  qed
  from a b handlePodEvent_Deleted [of event name p i w] show ?thesis by blast
qed

theorem pod_watcher_spawned_once_witness:
  "JobEvents exPlugin exCluster
     [JobEvent (exJobEvent Modified 0 0), JobEvent (exJobEvent Modified 0 0),
      JobEvent (exJobEvent Modified 0 0)] watchingWorld =
     (Blocked, [],
      watchingWorld\<lparr>calls := [Call_Pods_Watch ''default''
             \<lparr>Watch = False, optLabelSelector = labelSelectorString exPlugin\<rparr>],
        podWatchers := [newWatcher],
        watcherStatusMap := (watcherStatusMap watchingWorld)(PodWatcherStatusKey := True),
        Wg := 1,
        podTasks := [0]\<rparr>)
   \<and> activePodWatchers (snd (snd (JobEvents exPlugin exCluster
       [JobEvent (exJobEvent Modified 0 0), JobEvent (exJobEvent Modified 0 0),
        JobEvent (exJobEvent Modified 0 0)] watchingWorld))) = [newWatcher]
   \<and> fst (JobEvents exPlugin (exCluster\<lparr>Pods_Watch := \<lambda>k. Some ''refused''\<rparr>)
       [JobEvent (exJobEvent Modified 0 0), JobEvent (exJobEvent Modified 0 0)] watchingWorld) =
       Err ''refused''
   \<and> podTasks (snd (snd (JobEvents exPlugin (exCluster\<lparr>Pods_Watch := \<lambda>k. Some ''refused''\<rparr>)
       [JobEvent (exJobEvent Modified 0 0), JobEvent (exJobEvent Modified 0 0)] watchingWorld))) = []
   \<and> length (podWatchers (snd (run exPlugin exCluster
       [JobEvent (exJobEvent Modified 0 0), PodEvent 0 (exPodEvent Modified),
        JobEvent (exJobEvent Modified 0 0), StreamReturns 0 None, PodChannelClosed 0,
        JobEvent (exJobEvent Modified 0 0), CopyReturns 0 None,
        JobEvent (exJobEvent Modified 0 1)] initWorld))) \<le> 1
   \<and> length (activePodWatchers (snd (run exPlugin exCluster
       [JobEvent (exJobEvent Modified 0 0), PodEvent 0 (exPodEvent Modified),
        JobEvent (exJobEvent Modified 0 0), StreamReturns 0 None, PodChannelClosed 0,
        JobEvent (exJobEvent Modified 0 0), CopyReturns 0 None,
        JobEvent (exJobEvent Modified 0 1)] initWorld))) \<le> 1
   \<and> handlePodEvent exPlugin 0 (exPodEvent Deleted) watchingWorld =
       (Ok (), watchingStatusOff PodWatcherStatusKey (stopPodWatcher 0 watchingWorld))"
proof -
  let ?evs = "[exJobEvent Modified 0 0, exJobEvent Modified 0 0, exJobEvent Modified 0 0]"
  let ?evs' = "[exJobEvent Modified 0 0, exJobEvent Modified 0 0]"
  let ?cl = "exCluster\<lparr>Pods_Watch := \<lambda>k. Some ''refused''\<rparr>"
  let ?sched = "[JobEvent (exJobEvent Modified 0 0), PodEvent 0 (exPodEvent Modified),
        JobEvent (exJobEvent Modified 0 0), StreamReturns 0 None, PodChannelClosed 0,
        JobEvent (exJobEvent Modified 0 0), CopyReturns 0 None,
        JobEvent (exJobEvent Modified 0 1)]"
  have h1: "?evs \<noteq> [] \<and> (\<forall>event \<in> set ?evs. runningModified event)
      \<and> \<not> closed (jobWatcher watchingWorld)
      \<and> \<not> watchingStatus PodWatcherStatusKey watchingWorld"
    by (simp add: runningModified_def watchingWorld_def world_defs ex_defs)
  have h1': "?evs' \<noteq> [] \<and> (\<forall>event \<in> set ?evs'. runningModified event)
      \<and> \<not> closed (jobWatcher watchingWorld)
      \<and> \<not> watchingStatus PodWatcherStatusKey watchingWorld"
    by (simp add: runningModified_def watchingWorld_def world_defs ex_defs)
  have h2: "Pods_Watch exCluster (length (podWatchers watchingWorld)) = None"
    by (simp add: ex_defs)
  have h2': "Pods_Watch ?cl (length (podWatchers watchingWorld)) = Some ''refused''"
    by simp
  have h3: "activePodWatchers watchingWorld = []"
    by (simp add: activePodWatchers_def watchingWorld_def world_defs ex_defs)
  have h4: "\<forall>a \<in> set ?sched. noPodDeleted a"
    by (simp add: noPodDeleted_def ex_defs)
  have h5: "Type (exPodEvent Deleted) = Deleted \<and> Object (exPodEvent Deleted) = PodObject ''pod-1''"
    by (simp add: ex_defs)
  have i: "podWatchers watchingWorld = [] \<and> podTasks watchingWorld = []
      \<and> calls watchingWorld = [] \<and> Wg watchingWorld = 0 \<and> podWatchers initWorld = []
      \<and> Namespace exPlugin = ''default''"
    by (simp add: watchingWorld_def world_defs ex_defs)
  note a = pod_watcher_spawned_once [where evs = ?evs and w = watchingWorld and cl = exCluster
      and p = exPlugin, THEN conjunct1, THEN mp, OF h1, THEN conjunct1, THEN mp, OF h2]
  note b = pod_watcher_spawned_once [where evs = ?evs' and w = watchingWorld and cl = ?cl
      and p = exPlugin and e = "''refused''", THEN conjunct1, THEN mp, OF h1', THEN conjunct2,
      THEN mp, OF h2']
  note c = pod_watcher_spawned_once [where sched = ?sched and w = initWorld and cl = exCluster
      and p = exPlugin, THEN conjunct2, THEN conjunct1, THEN mp, OF h4]
  note d = pod_watcher_spawned_once [where event = "exPodEvent Deleted" and name = "''pod-1''"
      and w = watchingWorld and p = exPlugin and i = 0,
      THEN conjunct2, THEN conjunct2, THEN mp, OF h5]
  from a [THEN conjunct1] a [THEN conjunct2, THEN mp, OF h3] b [THEN conjunct1]
    b [THEN conjunct2, THEN conjunct1] c [THEN conjunct2, THEN conjunct1]
    c [THEN conjunct2, THEN conjunct2, THEN conjunct1] d i
  show ?thesis by simp
qed

text \<open>
  C5 as stated does not hold. After a pod event of type Deleted the next job event with
  neither count greater than 0 opens a second pod subscription and spawns a second
  \<open>PodEvents\<close> goroutine; after the channel of the pod subscription is closed no pod
  subscription is active, and the pod flag stays on; and when the pod subscription cannot be
  opened none is ever active.
\<close>

theorem pod_watcher_respawned_counterexample:
  "podTasks (snd (snd (JobEvents exPlugin exCluster
     [JobEvent (exJobEvent Modified 0 0), PodEvent 0 (exPodEvent Deleted),
      JobEvent (exJobEvent Modified 0 0)] watchingWorld))) = [0, 1]
   \<and> podWatchers (snd (snd (JobEvents exPlugin exCluster
     [JobEvent (exJobEvent Modified 0 0), PodEvent 0 (exPodEvent Deleted),
      JobEvent (exJobEvent Modified 0 0)] watchingWorld))) =
       [\<lparr>stops = 1, ended = False\<rparr>, \<lparr>stops = 0, ended = False\<rparr>]
   \<and> Wg (snd (snd (JobEvents exPlugin exCluster
     [JobEvent (exJobEvent Modified 0 0), PodEvent 0 (exPodEvent Deleted),
      JobEvent (exJobEvent Modified 0 0)] watchingWorld))) = 2
   \<and> activePodWatchers (snd (snd (JobEvents exPlugin exCluster
     [JobEvent (exJobEvent Modified 0 0), PodEvent 0 (exPodEvent Deleted)] watchingWorld))) = []
   \<and> activePodWatchers (snd (snd (JobEvents exPlugin exCluster
     [JobEvent (exJobEvent Modified 0 0), PodChannelClosed 0,
      JobEvent (exJobEvent Modified 0 0)] watchingWorld))) = []
   \<and> watchingStatus PodWatcherStatusKey (snd (snd (JobEvents exPlugin exCluster
     [JobEvent (exJobEvent Modified 0 0), PodChannelClosed 0,
      JobEvent (exJobEvent Modified 0 0)] watchingWorld)))
   \<and> fst (JobEvents exPlugin (exCluster\<lparr>Pods_Watch := \<lambda>k. Some ''refused''\<rparr>)
     [JobEvent (exJobEvent Modified 0 0)] watchingWorld) = Err ''refused''
   \<and> activePodWatchers (snd (snd (JobEvents exPlugin (exCluster\<lparr>Pods_Watch := \<lambda>k. Some ''refused''\<rparr>)
     [JobEvent (exJobEvent Modified 0 0)] watchingWorld))) = []"
  by (simp add: run_defs world_defs ex_defs watchingWorld_def jobLoopStep_def JobEvents_Cons Let_def
        activePodWatchers_def)

text \<open>
  The pod flag does not keep the active pod subscriptions to one either: a pod event of type
  Deleted that the first subscription had decoded before it was stopped is still handled, and
  clears the flag that the second subscription had set, so that the next job event opens a
  third while the second is active.
\<close>

lemma pod_watchers_two_active:
  "activePodWatchers (snd (snd (JobEvents exPlugin exCluster
     [JobEvent (exJobEvent Modified 0 0), PodEvent 0 (exPodEvent Deleted),
      JobEvent (exJobEvent Modified 0 0), PodEvent 0 (exPodEvent Deleted),
      JobEvent (exJobEvent Modified 0 0)] watchingWorld))) =
     [\<lparr>stops = 0, ended = False\<rparr>, \<lparr>stops = 0, ended = False\<rparr>]"
  by (simp add: run_defs world_defs ex_defs watchingWorld_def jobLoopStep_def JobEvents_Cons Let_def
        activePodWatchers_def)

section \<open>Properties of the log streamer\<close>

lemma handlePodEvent_Modified:
  assumes "Type event = Modified" "Object event = PodObject name"
  shows "handlePodEvent p i event w =
    (Ok (), if watchingStatus LogWatcherStatusKey w then w
            else w\<lparr>logTasks := logTasks w @ [\<lparr>ltPodName = name, ltPhase = Spawned\<rparr>]\<rparr>)"
  using assms by (simp add: handlePodEvent_def go_WatchLogs_def)

lemma stream_open_sets_flag:
  assumes "i < length (logTasks w)" "ltPhase (logTasks w ! i) = Spawned"
  shows "watchingStatus LogWatcherStatusKey (snd (background p (StreamReturns i None) w))"
    and "ltPhase (logTasks (snd (background p (StreamReturns i None) w)) ! i) = Streaming"
  using assms by (simp_all add: background_def WatchLogs_open_def world_defs Let_def)

text \<open>
  C6. The claim fails on the code. \<open>handlePodEvent\<close> spawns a log streamer exactly when the
  log flag is off, but the flag is set by the streamer itself, after \<^verbatim>\<open>req.Stream()\<close> has
  returned. Two Modified events of the pod that are handled before that both find the flag
  off: two log streamers are spawned and both stream the logs. When both have ended, the
  second \<^verbatim>\<open>Wg.Done()\<close> finds the counter at 0 and panics.
\<close>

theorem two_log_streamers:
  "logTasks (snd (snd (JobEvents exPlugin exCluster
      [JobEvent (exJobEvent Modified 0 0),
       PodEvent 0 (exPodEvent Modified), PodEvent 0 (exPodEvent Modified),
       StreamReturns 0 None, StreamReturns 1 None] watchingWorld))) =
     [\<lparr>ltPodName = ''pod-1'', ltPhase = Streaming\<rparr>, \<lparr>ltPodName = ''pod-1'', ltPhase = Streaming\<rparr>]
   \<and> fst (JobEvents exPlugin exCluster
      [JobEvent (exJobEvent Modified 0 0),
       PodEvent 0 (exPodEvent Modified), PodEvent 0 (exPodEvent Modified),
       StreamReturns 0 None, StreamReturns 1 None] watchingWorld) = Blocked
   \<and> fst (JobEvents exPlugin exCluster
      [JobEvent (exJobEvent Modified 0 0),
       PodEvent 0 (exPodEvent Modified), PodEvent 0 (exPodEvent Modified),
       StreamReturns 0 None, StreamReturns 1 None,
       CopyReturns 0 None, CopyReturns 1 None] watchingWorld) = Panic"
  by (simp add: run_defs world_defs ex_defs watchingWorld_def jobLoopStep_def JobEvents_Cons Let_def)

end
